theory Spec2Isabelle
  imports Complex_Main
begin

section \<open>Python and numpy primitives used by sim.py\<close>

text \<open>
  The exceptions that sim.py can raise: \<open>IndexError\<close> (its own bounds checks and numpy's
  index checks), \<open>ValueError\<close> (the length check of \<open>set_field\<close>, numpy's shape errors)
  and \<open>ZeroDivisionError\<close> (Python's \<open>/\<close> on a zero divisor). Indices are Python
  integers, modelled as \<open>int\<close>.
\<close>

datatype error = IndexError | ValueError | ZeroDivisionError

section \<open>float64 values\<close>

text \<open>
  The numbers of the program are IEEE 754 binary64 values: Python floats in the
  constructor of \<open>Sim\<close> and numpy \<open>float64\<close> in the fields. A value is a finite
  number, plus or minus infinity, or NaN. Arithmetic follows IEEE 754 on the special
  values: a result at or beyond the overflow threshold \<open>2^1024 - 2^970\<close> is an infinity,
  a result of magnitude at most \<open>2^-1075\<close> is zero, infinity times zero and infinity
  minus infinity are NaN, and NaN propagates. Two things are left out: a finite result
  inside the range is kept exact (the rounding to 53 bits is not modelled), and the
  two zeros \<open>+0.0\<close> and \<open>-0.0\<close>, which compare equal, are one value. Neither Python
  floats nor numpy raise on overflow or on an invalid operation in \<open>+\<close>, \<open>-\<close>, \<open>*\<close>;
  numpy only warns.
\<close>

datatype f64 = Fin real | PInf | NInf | NaN

text \<open>The value an operation returns when its exact result is the real number \<open>r\<close>.\<close>

definition fl_round :: "real \<Rightarrow> f64" where
  "fl_round r =
     (if 2 ^ 1024 - 2 ^ 970 \<le> r then PInf
      else if r \<le> - (2 ^ 1024 - 2 ^ 970) then NInf
      else if \<bar>r\<bar> \<le> 1 / 2 ^ 1075 then Fin 0
      else Fin r)"

text \<open>The finite values.\<close>

definition is_finite :: "f64 \<Rightarrow> bool" where
  "is_finite x = (case x of Fin r \<Rightarrow> True | PInf \<Rightarrow> False | NInf \<Rightarrow> False | NaN \<Rightarrow> False)"

instantiation f64 :: "{zero, plus, uminus, minus, times}"
begin

definition zero_f64 :: f64 where
  "zero_f64 = Fin 0"

fun plus_f64 :: "f64 \<Rightarrow> f64 \<Rightarrow> f64" where
  "Fin x + Fin y = fl_round (x + y)"
| "Fin x + PInf = PInf"
| "Fin x + NInf = NInf"
| "Fin x + NaN = NaN"
| "PInf + Fin y = PInf"
| "PInf + PInf = PInf"
| "PInf + NInf = NaN"
| "PInf + NaN = NaN"
| "NInf + Fin y = NInf"
| "NInf + PInf = NaN"
| "NInf + NInf = NInf"
| "NInf + NaN = NaN"
| "NaN + y = NaN"

fun uminus_f64 :: "f64 \<Rightarrow> f64" where
  "- Fin x = Fin (- x)"
| "- PInf = NInf"
| "- NInf = PInf"
| "- NaN = NaN"

definition minus_f64 :: "f64 \<Rightarrow> f64 \<Rightarrow> f64" where
  "minus_f64 x y = x + (- y)"

fun times_f64 :: "f64 \<Rightarrow> f64 \<Rightarrow> f64" where
  "Fin x * Fin y = fl_round (x * y)"
| "Fin x * PInf = (if x = 0 then NaN else if 0 < x then PInf else NInf)"
| "Fin x * NInf = (if x = 0 then NaN else if 0 < x then NInf else PInf)"
| "Fin x * NaN = NaN"
| "PInf * Fin y = (if y = 0 then NaN else if 0 < y then PInf else NInf)"
| "PInf * PInf = PInf"
| "PInf * NInf = NInf"
| "PInf * NaN = NaN"
| "NInf * Fin y = (if y = 0 then NaN else if 0 < y then NInf else PInf)"
| "NInf * PInf = NInf"
| "NInf * NInf = PInf"
| "NInf * NaN = NaN"
| "NaN * y = NaN"

instance ..

end

text \<open>
  Python's \<open>x / y\<close> on floats: \<open>ZeroDivisionError\<close> on a zero divisor, whatever the
  dividend, and the IEEE 754 quotient otherwise.
\<close>

fun py_div :: "f64 \<Rightarrow> f64 \<Rightarrow> error + f64" where
  "py_div x (Fin y) =
     (if y = 0 then Inl ZeroDivisionError
      else Inr (case x of
                  Fin a \<Rightarrow> fl_round (a / y)
                | PInf \<Rightarrow> (if 0 < y then PInf else NInf)
                | NInf \<Rightarrow> (if 0 < y then NInf else PInf)
                | NaN \<Rightarrow> NaN))"
| "py_div x PInf = Inr (case x of Fin a \<Rightarrow> Fin 0 | PInf \<Rightarrow> NaN | NInf \<Rightarrow> NaN | NaN \<Rightarrow> NaN)"
| "py_div x NInf = Inr (case x of Fin a \<Rightarrow> Fin 0 | PInf \<Rightarrow> NaN | NInf \<Rightarrow> NaN | NaN \<Rightarrow> NaN)"
| "py_div x NaN = Inr NaN"

section \<open>numpy arrays and Python ranges\<close>

text \<open>
  numpy's rule for one integer index \<open>k\<close> on an axis of length \<open>len\<close>: an index in
  \<open>[-len, len)\<close> is accepted, a negative one counting from the end; anything else raises
  \<open>IndexError\<close>.
\<close>

definition np_index :: "nat \<Rightarrow> int \<Rightarrow> error + nat" where
  "np_index len k =
     (if k < - int len \<or> int len \<le> k then Inl IndexError
      else Inr (nat (if k < 0 then k + int len else k)))"

text \<open>A two-dimensional array is the list of its rows. \<open>np.zeros((num_n, num_i))\<close>:\<close>

definition np_zeros :: "int \<Rightarrow> int \<Rightarrow> error + f64 list list" where
  "np_zeros num_n num_i =
     (if num_n < 0 \<or> num_i < 0 then Inl ValueError
      else Inr (replicate (nat num_n) (replicate (nat num_i) 0)))"

text \<open>\<open>a[k]\<close>: the row at index \<open>k\<close>.\<close>

definition np_getrow :: "f64 list list \<Rightarrow> int \<Rightarrow> error + f64 list" where
  "np_getrow a k =
     (case np_index (length a) k of
        Inl e \<Rightarrow> Inl e
      | Inr r \<Rightarrow> Inr (a ! r))"

text \<open>\<open>a[k, i]\<close>: one cell.\<close>

definition np_getitem :: "f64 list list \<Rightarrow> int \<Rightarrow> int \<Rightarrow> error + f64" where
  "np_getitem a k i =
     (case np_index (length a) k of
        Inl e \<Rightarrow> Inl e
      | Inr r \<Rightarrow>
          (case np_index (length (a ! r)) i of
             Inl e \<Rightarrow> Inl e
           | Inr c \<Rightarrow> Inr (a ! r ! c)))"

text \<open>\<open>a[k, i] = v\<close>: the array after the assignment, or the exception.\<close>

definition np_setitem :: "f64 list list \<Rightarrow> int \<Rightarrow> int \<Rightarrow> f64 \<Rightarrow> error + f64 list list" where
  "np_setitem a k i v =
     (case np_index (length a) k of
        Inl e \<Rightarrow> Inl e
      | Inr r \<Rightarrow>
          (case np_index (length (a ! r)) i of
             Inl e \<Rightarrow> Inl e
           | Inr c \<Rightarrow> Inr (a[r := (a ! r)[c := v]])))"

text \<open>
  \<open>a[k] = row\<close>: numpy broadcasts the right-hand side to the row's length: a sequence of
  the same length is copied, a sequence of length one is repeated, any other length
  raises \<open>ValueError\<close>.
\<close>

definition np_setrow :: "f64 list list \<Rightarrow> int \<Rightarrow> f64 list \<Rightarrow> error + f64 list list" where
  "np_setrow a k row =
     (case np_index (length a) k of
        Inl e \<Rightarrow> Inl e
      | Inr r \<Rightarrow>
          (if length row = length (a ! r) then Inr (a[r := row])
           else if length row = 1 then Inr (a[r := replicate (length (a ! r)) (hd row)])
           else Inl ValueError))"

text \<open>\<open>range(n)\<close> as the list of its values.\<close>

definition py_range :: "int \<Rightarrow> int list" where
  "py_range n = map int [0..<nat n]"

subsection \<open>Statements that may raise\<close>

text \<open>
  A method that mutates its object returns the exception it raised, if any, together
  with the object as the method left it: \<open>(None, s')\<close> is a normal return,
  \<open>(Some e, s')\<close> is a raise of \<open>e\<close> with \<open>s'\<close> the state at that moment.
\<close>

definition and_then ::
  "('s \<Rightarrow> error option \<times> 's) \<Rightarrow> ('s \<Rightarrow> error option \<times> 's) \<Rightarrow> 's \<Rightarrow> error option \<times> 's" where
  "and_then p q s =
     (case p s of
        (None, s') \<Rightarrow> q s'
      | (Some e, s') \<Rightarrow> (Some e, s'))"

text \<open>An expression that may raise, followed by the rest of the statement.\<close>

definition read_then ::
  "error + 'a \<Rightarrow> 's \<Rightarrow> ('a \<Rightarrow> error option \<times> 's) \<Rightarrow> error option \<times> 's" where
  "read_then r s k = (case r of Inl e \<Rightarrow> (Some e, s) | Inr v \<Rightarrow> k v)"

text \<open>\<open>for i in xs: body\<close>, stopping at the first raise.\<close>

fun for_loop ::
  "int list \<Rightarrow> (int \<Rightarrow> 's \<Rightarrow> error option \<times> 's) \<Rightarrow> 's \<Rightarrow> error option \<times> 's" where
  "for_loop [] body s = (None, s)"
| "for_loop (i # xs) body s =
     (case body i s of
        (None, s') \<Rightarrow> for_loop xs body s'
      | (Some e, s') \<Rightarrow> (Some e, s'))"

section \<open>class Field\<close>

text \<open>
  The attributes \<open>_n\<close>, \<open>_num_n\<close>, \<open>_num_i\<close> and \<open>_field\<close> of a \<open>Field\<close> object
  (an identifier cannot start with an underscore, so they carry the prefix \<open>f\<close>).
\<close>

record Field =
  f_n :: int
  f_num_n :: int
  f_num_i :: int
  f_field :: "f64 list list"

text \<open>
  \<open>Field.__init__(num_n=0, num_i=0, field=None)\<close>. A caller-supplied \<open>field\<close> is given
  as the list of its rows; \<open>np.shape\<close> must unpack into two dimensions, which fails with
  \<open>ValueError\<close> on an empty list (shape \<open>(0,)\<close>) and on rows of different lengths.
\<close>

definition Field_init :: "int \<Rightarrow> int \<Rightarrow> f64 list list option \<Rightarrow> error + Field" where
  "Field_init num_n num_i field =
     (case field of
        None \<Rightarrow>
          (case np_zeros num_n num_i of
             Inl e \<Rightarrow> Inl e
           | Inr z \<Rightarrow> Inr \<lparr>f_n = 0, f_num_n = num_n, f_num_i = num_i, f_field = z\<rparr>)
      | Some a \<Rightarrow>
          (if a = [] \<or> \<not> list_all (\<lambda>r. length r = length (hd a)) a then Inl ValueError
           else Inr \<lparr>f_n = 0, f_num_n = int (length a), f_num_i = int (length (hd a)),
                     f_field = a\<rparr>))"

definition Field_get_time_index :: "Field \<Rightarrow> int" where
  "Field_get_time_index f = f_n f"

definition Field_set_time_index :: "Field \<Rightarrow> int \<Rightarrow> error option \<times> Field" where
  "Field_set_time_index f n =
     (if n < 0 \<or> n \<ge> f_num_n f then (Some IndexError, f)
      else (None, f\<lparr>f_n := n\<rparr>))"

text \<open>
  \<open>get_field(n=-1)\<close>: the argument is \<open>None\<close> when the caller passes nothing, and the
  parameter then takes its default \<open>-1\<close>.
\<close>

definition Field_get_field :: "Field \<Rightarrow> int option \<Rightarrow> error + f64 list" where
  "Field_get_field f arg =
     (let n = (case arg of None \<Rightarrow> - 1 | Some k \<Rightarrow> k) in
      if n = - 1 then np_getrow (f_field f) (f_n f)
      else if n < 0 \<or> n \<ge> f_num_n f then Inl IndexError
      else np_getrow (f_field f) n)"

definition Field_get_index :: "Field \<Rightarrow> int \<Rightarrow> error + f64" where
  "Field_get_index f i =
     (if i < 0 \<or> i \<ge> f_num_i f then Inr 0
      else np_getitem (f_field f) (f_n f) i)"

definition Field_set_index :: "Field \<Rightarrow> int \<Rightarrow> f64 \<Rightarrow> error option \<times> Field" where
  "Field_set_index f i v =
     (case np_setitem (f_field f) (f_n f) i v of
        Inl e \<Rightarrow> (Some e, f)
      | Inr a \<Rightarrow> (None, f\<lparr>f_field := a\<rparr>))"

definition Field_set_field :: "Field \<Rightarrow> f64 list \<Rightarrow> int option \<Rightarrow> error option \<times> Field" where
  "Field_set_field f nfield arg =
     (let n = (case arg of None \<Rightarrow> - 1 | Some k \<Rightarrow> k) in
      if int (length nfield) \<noteq> f_num_i f then (Some ValueError, f)
      else if n = - 1 then
        (case np_setrow (f_field f) (f_n f) nfield of
           Inl e \<Rightarrow> (Some e, f)
         | Inr a \<Rightarrow> (None, f\<lparr>f_field := a\<rparr>))
      else if n < 0 \<or> n \<ge> f_num_n f then (Some IndexError, f)
      else
        (case np_setrow (f_field f) n nfield of
           Inl e \<Rightarrow> (Some e, f)
         | Inr a \<Rightarrow> (None, f\<lparr>f_field := a\<rparr>)))"

text \<open>
  \<open>iterate()\<close>: the right-hand side \<open>self._field[self._n]\<close> is read first, then assigned
  to row \<open>self._n + 1\<close>, then the cursor is incremented.
\<close>

definition Field_iterate :: "Field \<Rightarrow> error option \<times> Field" where
  "Field_iterate f =
     (if f_n f + 1 \<ge> f_num_n f then (Some IndexError, f)
      else
        (case np_getrow (f_field f) (f_n f) of
           Inl e \<Rightarrow> (Some e, f)
         | Inr row \<Rightarrow>
             (case np_setrow (f_field f) (f_n f + 1) row of
                Inl e \<Rightarrow> (Some e, f)
              | Inr a \<Rightarrow> (None, f\<lparr>f_field := a, f_n := f_n f + 1\<rparr>))))"

definition Field_export :: "Field \<Rightarrow> f64 list list" where
  "Field_export f = f_field f"

text \<open>
  The states a \<open>Field\<close> object can be in through its methods: the buffer has \<open>_num_n\<close>
  rows of \<open>_num_i\<close> values each, and the cursor is 0 (as the constructor leaves it, even
  on a buffer with no row) or inside \<open>[0, _num_n)\<close>.
\<close>

definition wf_Field :: "Field \<Rightarrow> bool" where
  "wf_Field f =
     (0 \<le> f_num_n f \<and> 0 \<le> f_num_i f \<and>
      length (f_field f) = nat (f_num_n f) \<and>
      list_all (\<lambda>r. length r = nat (f_num_i f)) (f_field f) \<and>
      0 \<le> f_n f \<and> (f_n f < f_num_n f \<or> f_n f = 0))"

section \<open>class Sim\<close>

text \<open>
  The attributes of a \<open>Sim\<close> object, with the prefix \<open>s\<close>. The \<open>susceptibility\<close>
  argument is stored and never read; it is taken to be a number, as example.py passes one.
\<close>

record Sim =
  s_vacuum_permittivity :: f64
  s_infinity_permittivity :: f64
  s_vacuum_permeability :: f64
  s_delta_t :: f64
  s_delta_z :: f64
  s_cfield :: Field
  s_susceptibility :: f64
  s_initial_susceptibility :: f64
  s_num_n :: int
  s_num_i :: int
  s_efield :: Field
  s_hfield :: Field
  s_e_calc_term1_prop_coeff :: f64
  s_e_calc_term2_prop_coeff :: f64
  s_e_calc_term3_prop_coeff :: f64
  s_e_calc_term4_prop_coeff :: f64
  s_h_calc_term2_prop_coeff :: f64

text \<open>
  \<open>Sim.__init__\<close>, in the order of its statements (the prints are left out). The
  numeric arguments are Python floats; an \<open>int\<close> argument, as example.py passes for some
  of them, is taken as the float of the same value.
\<close>

definition Sim_init ::
  "f64 \<Rightarrow> f64 \<Rightarrow> f64 \<Rightarrow> f64 \<Rightarrow> f64 \<Rightarrow> int \<Rightarrow> int \<Rightarrow> Field \<Rightarrow> f64 \<Rightarrow> f64 \<Rightarrow> error + Sim" where
  "Sim_init vacuum_permittivity infinity_permittivity vacuum_permeability delta_t delta_z
            num_n num_i current_field susceptibility initial_susceptibility =
     (case Field_init num_n num_i None of Inl e \<Rightarrow> Inl e | Inr efield \<Rightarrow>
      case Field_init num_n num_i None of Inl e \<Rightarrow> Inl e | Inr hfield \<Rightarrow>
      case py_div infinity_permittivity (infinity_permittivity + initial_susceptibility) of
        Inl e \<Rightarrow> Inl e | Inr c1 \<Rightarrow>
      case py_div (Fin 1) (infinity_permittivity + initial_susceptibility) of
        Inl e \<Rightarrow> Inl e | Inr c2 \<Rightarrow>
      case py_div delta_t
             (vacuum_permittivity * delta_z * (infinity_permittivity + initial_susceptibility)) of
        Inl e \<Rightarrow> Inl e | Inr c3 \<Rightarrow>
      case py_div delta_t
             (vacuum_permittivity * (infinity_permittivity + initial_susceptibility)) of
        Inl e \<Rightarrow> Inl e | Inr c4 \<Rightarrow>
      case py_div delta_t (vacuum_permeability * delta_z) of
        Inl e \<Rightarrow> Inl e | Inr ch \<Rightarrow>
      Inr \<lparr>s_vacuum_permittivity = vacuum_permittivity,
           s_infinity_permittivity = infinity_permittivity,
           s_vacuum_permeability = vacuum_permeability,
           s_delta_t = delta_t,
           s_delta_z = delta_z,
           s_cfield = current_field,
           s_susceptibility = susceptibility,
           s_initial_susceptibility = initial_susceptibility,
           s_num_n = num_n,
           s_num_i = num_i,
           s_efield = efield,
           s_hfield = hfield,
           s_e_calc_term1_prop_coeff = c1,
           s_e_calc_term2_prop_coeff = c2,
           s_e_calc_term3_prop_coeff = c3,
           s_e_calc_term4_prop_coeff = c4,
           s_h_calc_term2_prop_coeff = ch\<rparr>)"

text \<open>A method call on one of the three fields of the simulation.\<close>

definition on_efield :: "(Field \<Rightarrow> error option \<times> Field) \<Rightarrow> Sim \<Rightarrow> error option \<times> Sim" where
  "on_efield m s = (case m (s_efield s) of (r, f) \<Rightarrow> (r, s\<lparr>s_efield := f\<rparr>))"

definition on_hfield :: "(Field \<Rightarrow> error option \<times> Field) \<Rightarrow> Sim \<Rightarrow> error option \<times> Sim" where
  "on_hfield m s = (case m (s_hfield s) of (r, f) \<Rightarrow> (r, s\<lparr>s_hfield := f\<rparr>))"

definition on_cfield :: "(Field \<Rightarrow> error option \<times> Field) \<Rightarrow> Sim \<Rightarrow> error option \<times> Sim" where
  "on_cfield m s = (case m (s_cfield s) of (r, f) \<Rightarrow> (r, s\<lparr>s_cfield := f\<rparr>))"

definition psi :: "Sim \<Rightarrow> f64" where
  "psi s = 0"

definition current :: "Sim \<Rightarrow> int \<Rightarrow> error + f64" where
  "current s i = Field_get_index (s_cfield s) i"

text \<open>The body of the loop of \<open>_calc_hfield\<close>, and the loop.\<close>

definition calc_hfield_body :: "int \<Rightarrow> Sim \<Rightarrow> error option \<times> Sim" where
  "calc_hfield_body i s =
     read_then (Field_get_index (s_hfield s) i) s (\<lambda>term1.
     read_then (Field_get_index (s_efield s) (i + 1)) s (\<lambda>e1.
     read_then (Field_get_index (s_efield s) i) s (\<lambda>e0.
       let term2 = s_h_calc_term2_prop_coeff s * (e1 - e0) in
       on_hfield (\<lambda>h. Field_set_index h i (term1 - term2)) s)))"

definition calc_hfield :: "Sim \<Rightarrow> error option \<times> Sim" where
  "calc_hfield s = for_loop (py_range (s_num_i s)) calc_hfield_body s"

text \<open>The body of the loop of \<open>_calc_efield\<close>, and the loop.\<close>

definition calc_efield_body :: "int \<Rightarrow> Sim \<Rightarrow> error option \<times> Sim" where
  "calc_efield_body i s =
     read_then (Field_get_index (s_efield s) i) s (\<lambda>e0.
       let term1 = s_e_calc_term1_prop_coeff s * e0;
           term2 = s_e_calc_term2_prop_coeff s * psi s in
     read_then (Field_get_index (s_hfield s) i) s (\<lambda>h0.
     read_then (Field_get_index (s_hfield s) (i - 1)) s (\<lambda>h1.
       let term3 = s_e_calc_term3_prop_coeff s * (h0 - h1) in
     read_then (current s i) s (\<lambda>j.
       let term4 = s_e_calc_term4_prop_coeff s * j in
       on_efield (\<lambda>e. Field_set_index e i (term1 + term2 - term3 - term4)) s))))"

definition calc_efield :: "Sim \<Rightarrow> error option \<times> Sim" where
  "calc_efield s = for_loop (py_range (s_num_i s)) calc_efield_body s"

definition iterate_cfield :: "Sim \<Rightarrow> error option \<times> Sim" where
  "iterate_cfield s =
     (let prior_time = Field_get_time_index (s_cfield s) in
      on_cfield (\<lambda>c. Field_set_time_index c (prior_time + 1)) s)"

text \<open>One pass of the loop of \<open>simulate\<close>.\<close>

definition sim_step :: "Sim \<Rightarrow> error option \<times> Sim" where
  "sim_step =
     and_then calc_hfield
    (and_then calc_efield
    (and_then (on_hfield Field_iterate)
    (and_then (on_efield Field_iterate)
     iterate_cfield)))"

text \<open>The three statements of \<open>simulate\<close> before its loop.\<close>

definition reset_time :: "Sim \<Rightarrow> error option \<times> Sim" where
  "reset_time =
     and_then (on_efield (\<lambda>f. Field_set_time_index f 0))
    (and_then (on_hfield (\<lambda>f. Field_set_time_index f 0))
              (on_cfield (\<lambda>f. Field_set_time_index f 0)))"

definition simulate :: "Sim \<Rightarrow> error option \<times> Sim" where
  "simulate s =
     and_then reset_time (for_loop (py_range (s_num_n s - 1)) (\<lambda>j. sim_step)) s"

section \<open>Notation for stating results\<close>

text \<open>
  The row under the cursor, and a field with that row replaced. These are not in sim.py;
  they name the parts of a \<open>Field\<close> that the theorems speak about.
\<close>

definition cur_row :: "Field \<Rightarrow> f64 list" where
  "cur_row f = f_field f ! nat (f_n f)"

definition set_cur_row :: "Field \<Rightarrow> f64 list \<Rightarrow> Field" where
  "set_cur_row f r = f\<lparr>f_field := (f_field f)[nat (f_n f) := r]\<rparr>"

text \<open>
  A well-formed field whose cursor is on a row of the buffer (so the buffer has a row).
\<close>

definition on_row :: "Field \<Rightarrow> bool" where
  "on_row f = (wf_Field f \<and> f_n f < f_num_n f)"

text \<open>The boundary policy in the spec's words: a row read as zero outside its columns.\<close>

definition zero_outside :: "f64 list \<Rightarrow> int \<Rightarrow> f64" where
  "zero_outside row i = (if 0 \<le> i \<and> i < int (length row) then row ! nat i else 0)"

text \<open>
  The two updates in the spec's words. From the electric row \<open>E\<close> and the magnetic row
  \<open>H\<close> before the pass, the magnetic row after it is \<open>H[i] - ch * (E[i+1] - E[i])\<close>; from
  the electric row \<open>E\<close> before the pass, the magnetic row \<open>H\<close> after its update and the
  current row \<open>J\<close>, the electric row is
  \<open>c1 * E[i] + c2 * psi - c3 * (H[i] - H[i-1]) - c4 * J[i]\<close>.
\<close>

definition spec_hfield_row :: "f64 \<Rightarrow> f64 list \<Rightarrow> f64 list \<Rightarrow> f64 list" where
  "spec_hfield_row ch E H =
     map (\<lambda>i. H ! i - ch * (zero_outside E (int i + 1) - E ! i)) [0..<length H]"

definition spec_efield_row ::
  "f64 \<Rightarrow> f64 \<Rightarrow> f64 \<Rightarrow> f64 \<Rightarrow> f64 \<Rightarrow> f64 list \<Rightarrow> f64 list \<Rightarrow> f64 list \<Rightarrow> f64 list" where
  "spec_efield_row c1 c2 c3 c4 ps E H J =
     map (\<lambda>i. c1 * (E ! i) + c2 * ps - c3 * (H ! i - zero_outside H (int i - 1))
               - c4 * zero_outside J (int i)) [0..<length E]"

text \<open>
  The states in which a pass of the loop of \<open>simulate\<close> runs: the three fields are
  well-formed with their cursors on a row, and the electric and magnetic fields have the
  simulation's number of columns.
\<close>

definition ready :: "Sim \<Rightarrow> bool" where
  "ready s =
     (on_row (s_efield s) \<and> on_row (s_hfield s) \<and> on_row (s_cfield s) \<and>
      f_num_i (s_efield s) = s_num_i s \<and> f_num_i (s_hfield s) = s_num_i s)"

text \<open>The five stored coefficients, in the order c1, c2, c3, c4, ch.\<close>

definition coeffs :: "Sim \<Rightarrow> f64 \<times> f64 \<times> f64 \<times> f64 \<times> f64" where
  "coeffs s = (s_e_calc_term1_prop_coeff s, s_e_calc_term2_prop_coeff s,
               s_e_calc_term3_prop_coeff s, s_e_calc_term4_prop_coeff s,
               s_h_calc_term2_prop_coeff s)"

text \<open>The five stored coefficients are finite: none is an infinity or NaN.\<close>

definition finite_coeffs :: "Sim \<Rightarrow> bool" where
  "finite_coeffs s =
     (is_finite (s_e_calc_term1_prop_coeff s) \<and> is_finite (s_e_calc_term2_prop_coeff s) \<and>
      is_finite (s_e_calc_term3_prop_coeff s) \<and> is_finite (s_e_calc_term4_prop_coeff s) \<and>
      is_finite (s_h_calc_term2_prop_coeff s))"

text \<open>A field after a successful \<open>iterate()\<close>.\<close>

definition advanced :: "Field \<Rightarrow> Field" where
  "advanced f = f\<lparr>f_field := (f_field f)[nat (f_n f + 1) := f_field f ! nat (f_n f)],
                  f_n := f_n f + 1\<rparr>"

subsection \<open>The cone of an impulse\<close>

text \<open>
  An electric row is zero at every column more than \<open>r\<close> away from column \<open>p\<close>; a
  magnetic row (whose cell \<open>i\<close> sits between columns \<open>i\<close> and \<open>i + 1\<close>) is zero
  outside the cells \<open>p - r, ..., p + r - 1\<close>; a current buffer is zero except possibly at
  row 0, column \<open>p\<close>.
\<close>

definition econe :: "int \<Rightarrow> int \<Rightarrow> f64 list \<Rightarrow> bool" where
  "econe p r row = (\<forall>i<length row. r < \<bar>int i - p\<bar> \<longrightarrow> row ! i = 0)"

definition hcone :: "int \<Rightarrow> int \<Rightarrow> f64 list \<Rightarrow> bool" where
  "hcone p r row = (\<forall>i<length row. int i < p - r \<or> p + r - 1 < int i \<longrightarrow> row ! i = 0)"

definition src_only :: "int \<Rightarrow> f64 list list \<Rightarrow> bool" where
  "src_only p C = (\<forall>k<length C. \<forall>i<length (C ! k). C ! k ! i \<noteq> 0 \<longrightarrow> k = 0 \<and> int i = p)"

text \<open>
  What holds when pass \<open>k\<close> of the loop of \<open>simulate\<close> starts: the three cursors are
  \<open>k\<close>, the rows of the electric field before \<open>k\<close> are final and inside the cone, and
  the rows under the cursor are the copies of the rows of pass \<open>k - 1\<close>.
\<close>

definition cone_inv :: "int \<Rightarrow> nat \<Rightarrow> Sim \<Rightarrow> bool" where
  "cone_inv p k s =
     (ready s \<and> finite_coeffs s \<and>
      f_num_n (s_efield s) = s_num_n s \<and> f_num_n (s_hfield s) = s_num_n s \<and>
      f_num_n (s_cfield s) = s_num_n s \<and>
      f_n (s_efield s) = int k \<and> f_n (s_hfield s) = int k \<and> f_n (s_cfield s) = int k \<and>
      src_only p (f_field (s_cfield s)) \<and>
      (\<forall>j<k. econe p (int j) (f_field (s_efield s) ! j)) \<and>
      econe p (int k - 1) (f_field (s_efield s) ! k) \<and>
      hcone p (int k) (f_field (s_hfield s) ! k))"

subsection \<open>Example simulations\<close>

text \<open>
  A current field of two rows and one column with the value 1 at time 0, as
  \<open>Field(2, 1)\<close> followed by \<open>cfield[0] = 1\<close> builds it; the simulation
  \<open>Sim(1.0, 1.0, 1.0, 1.0, 2.0, 2, 1, cfield, 0.0, 0.0)\<close> over it; and a simulation of two rows and
  three columns with values in all three fields.
\<close>

definition impulse_2x1 :: Field where
  "impulse_2x1 = \<lparr>f_n = 0, f_num_n = 2, f_num_i = 1, f_field = [[Fin 1], [0]]\<rparr>"

definition impulse_sim :: Sim where
  "impulse_sim =
     \<lparr>s_vacuum_permittivity = Fin 1, s_infinity_permittivity = Fin 1, s_vacuum_permeability = Fin 1,
      s_delta_t = Fin 1, s_delta_z = Fin 2, s_cfield = impulse_2x1, s_susceptibility = 0,
      s_initial_susceptibility = 0, s_num_n = 2, s_num_i = 1,
      s_efield = \<lparr>f_n = 0, f_num_n = 2, f_num_i = 1, f_field = [[0], [0]]\<rparr>,
      s_hfield = \<lparr>f_n = 0, f_num_n = 2, f_num_i = 1, f_field = [[0], [0]]\<rparr>,
      s_e_calc_term1_prop_coeff = Fin 1, s_e_calc_term2_prop_coeff = Fin 1,
      s_e_calc_term3_prop_coeff = Fin (1 / 2), s_e_calc_term4_prop_coeff = Fin 1,
      s_h_calc_term2_prop_coeff = Fin (1 / 2)\<rparr>"

definition pass_example :: Sim where
  "pass_example =
     \<lparr>s_vacuum_permittivity = Fin 1, s_infinity_permittivity = Fin 1, s_vacuum_permeability = Fin 1,
      s_delta_t = Fin 1, s_delta_z = Fin 2,
      s_cfield = \<lparr>f_n = 0, f_num_n = 2, f_num_i = 3, f_field = [[Fin 7, Fin 8, Fin 9], [0, 0, 0]]\<rparr>,
      s_susceptibility = 0, s_initial_susceptibility = 0, s_num_n = 2, s_num_i = 3,
      s_efield = \<lparr>f_n = 0, f_num_n = 2, f_num_i = 3, f_field = [[Fin 1, Fin 2, Fin 3], [0, 0, 0]]\<rparr>,
      s_hfield = \<lparr>f_n = 0, f_num_n = 2, f_num_i = 3, f_field = [[Fin 4, Fin 5, Fin 6], [0, 0, 0]]\<rparr>,
      s_e_calc_term1_prop_coeff = Fin 1, s_e_calc_term2_prop_coeff = Fin 1,
      s_e_calc_term3_prop_coeff = Fin (1 / 2), s_e_calc_term4_prop_coeff = Fin 1,
      s_h_calc_term2_prop_coeff = Fin (1 / 2)\<rparr>"

text \<open>
  The current field of 6 rows and 11 columns that is zero except for the value \<open>v\<close> at
  time 0, column 5, as \<open>Field(6, 11)\<close> followed by \<open>cfield[5] = v\<close> builds it.
\<close>

definition impulse_6x11 :: "f64 \<Rightarrow> Field" where
  "impulse_6x11 v =
     \<lparr>f_n = 0, f_num_n = 6, f_num_i = 11,
      f_field = (replicate 6 (replicate 11 0))[0 := (replicate 11 0)[5 := v]]\<rparr>"

text \<open>
  The simulation \<open>Sim(1e-308, 1.0, 1.0, 1e308, 1.0, 6, 11, cfield, 0.0, 0.0)\<close> over the
  current field of 6 rows and 11 columns with the value 1 at time 0, column 5. Its
  third and fourth coefficients are \<open>1e308 / 1e-308\<close>, which overflows to infinity.
\<close>

definition float_1e308 :: real where
  "float_1e308 = 10 ^ 308"

definition float_1e_308 :: real where
  "float_1e_308 = 1 / 10 ^ 308"

definition overflow_sim :: Sim where
  "overflow_sim =
     \<lparr>s_vacuum_permittivity = Fin float_1e_308, s_infinity_permittivity = Fin 1,
      s_vacuum_permeability = Fin 1, s_delta_t = Fin float_1e308, s_delta_z = Fin 1,
      s_cfield = impulse_6x11 (Fin 1), s_susceptibility = 0,
      s_initial_susceptibility = 0, s_num_n = 6, s_num_i = 11,
      s_efield = \<lparr>f_n = 0, f_num_n = 6, f_num_i = 11,
                  f_field = replicate 6 (replicate 11 0)\<rparr>,
      s_hfield = \<lparr>f_n = 0, f_num_n = 6, f_num_i = 11,
                  f_field = replicate 6 (replicate 11 0)\<rparr>,
      s_e_calc_term1_prop_coeff = Fin 1, s_e_calc_term2_prop_coeff = Fin 1,
      s_e_calc_term3_prop_coeff = PInf, s_e_calc_term4_prop_coeff = PInf,
      s_h_calc_term2_prop_coeff = Fin float_1e308\<rparr>"

section \<open>Arithmetic on the special values\<close>

lemma fl_round_0: "fl_round 0 = Fin 0"
  by (simp add: fl_round_def)

lemma fl_round_small: "1 / 1000 \<le> \<bar>r\<bar> \<Longrightarrow> \<bar>r\<bar> \<le> 1000 \<Longrightarrow> fl_round r = Fin r"
proof -
  assume a: "1 / 1000 \<le> \<bar>r\<bar>" "\<bar>r\<bar> \<le> 1000"
  have t: "(1000 :: real) < 2 ^ 1024 - 2 ^ 970" by simp
  have u: "(1 :: real) / 2 ^ 1075 < 1 / 1000" by simp
  show ?thesis using a t u unfolding fl_round_def by auto
qed

lemmas f64_eval = zero_f64_def minus_f64_def fl_round_0 fl_round_small

lemma finite_times_0: "is_finite c \<Longrightarrow> c * 0 = 0"
  by (cases c) (simp_all add: is_finite_def zero_f64_def fl_round_0)

lemma zero_minus_zero: "(0 :: f64) - 0 = 0" and zero_plus_zero: "(0 :: f64) + 0 = 0"
  by (simp_all add: minus_f64_def zero_f64_def fl_round_0)

lemma plus_NaN: "x + NaN = NaN" and NaN_plus: "NaN + x = NaN"
  by (cases x; simp)+

lemma minus_NaN: "x - NaN = NaN" and NaN_minus: "NaN - x = NaN"
  by (simp_all add: minus_f64_def plus_NaN)

section \<open>Loops and index arithmetic\<close>

lemma np_index_in_range: "0 \<le> k \<Longrightarrow> k < int len \<Longrightarrow> np_index len k = Inr (nat k)"
  by (simp add: np_index_def)

lemma for_loop_append:
  "for_loop (xs @ ys) body s =
     (case for_loop xs body s of
        (None, s') \<Rightarrow> for_loop ys body s'
      | (Some e, s') \<Rightarrow> (Some e, s'))"
  by (induction xs arbitrary: s) (auto split: prod.splits option.splits)

lemma py_range_Suc: "py_range (int (Suc k)) = py_range (int k) @ [int k]"
  by (simp add: py_range_def del: of_nat_Suc)

lemma py_range_0: "py_range 0 = []"
  by (simp add: py_range_def)

section \<open>Properties of Field\<close>

lemma wf_Field_init:
  "Field_init num_n num_i None = Inr f \<Longrightarrow>
     wf_Field f \<and> f_n f = 0 \<and> f_num_n f = num_n \<and> f_num_i f = num_i
     \<and> f_field f = replicate (nat num_n) (replicate (nat num_i) 0)"
  by (auto simp: Field_init_def np_zeros_def wf_Field_def list_all_length split: if_splits)

lemma wf_iterate:
  assumes "wf_Field f" "f_n f + 1 < f_num_n f"
  shows "Field_iterate f =
           (None, f\<lparr>f_field := (f_field f)[nat (f_n f + 1) := f_field f ! nat (f_n f)],
                    f_n := f_n f + 1\<rparr>)"
proof -
  from assms have len: "length (f_field f) = nat (f_num_n f)" and n0: "0 \<le> f_n f"
    and rows: "list_all (\<lambda>r. length r = nat (f_num_i f)) (f_field f)"
    by (simp_all add: wf_Field_def)
  have r0: "np_getrow (f_field f) (f_n f) = Inr (f_field f ! nat (f_n f))"
    using assms(2) len n0 by (simp add: np_getrow_def np_index_in_range)
  have i1: "np_index (length (f_field f)) (f_n f + 1) = Inr (nat (f_n f + 1))"
    using assms(2) len n0 by (simp add: np_index_in_range)
  have l0: "length (f_field f ! nat (f_n f)) = nat (f_num_i f)"
    using rows assms(2) len n0 by (simp add: list_all_length)
  have l1: "length (f_field f ! nat (f_n f + 1)) = nat (f_num_i f)"
    using rows assms(2) len n0 by (simp add: list_all_length)
  have r1: "np_setrow (f_field f) (f_n f + 1) (f_field f ! nat (f_n f))
              = Inr ((f_field f)[nat (f_n f + 1) := f_field f ! nat (f_n f)])"
    by (simp add: np_setrow_def i1 l0 l1)
  show ?thesis using assms(2) by (simp add: Field_iterate_def r0 r1)
qed

lemma iterate_exhausted:
  "f_n f + 1 \<ge> f_num_n f \<Longrightarrow> Field_iterate f = (Some IndexError, f)"
  by (simp add: Field_iterate_def)

lemma wf_Field_iterate:
  assumes "wf_Field f" "f_n f + 1 < f_num_n f"
  shows "wf_Field (snd (Field_iterate f))"
proof -
  from assms have rows: "list_all (\<lambda>r. length r = nat (f_num_i f)) (f_field f)"
    and len: "length (f_field f) = nat (f_num_n f)" and n0: "0 \<le> f_n f"
    by (simp_all add: wf_Field_def)
  have l0: "length (f_field f ! nat (f_n f)) = nat (f_num_i f)"
    using rows assms(2) len n0 by (simp add: list_all_length)
  have "list_all (\<lambda>r. length r = nat (f_num_i f))
          ((f_field f)[nat (f_n f + 1) := f_field f ! nat (f_n f)])"
    using rows l0 assms(2) len n0 by (auto simp: list_all_length nth_list_update)
  then show ?thesis
    using assms by (simp add: wf_iterate wf_Field_def)
qed

lemma iterate_k_times:
  assumes "wf_Field f" "f_n f = 0"
  shows "int k < f_num_n f \<Longrightarrow>
         \<exists>g. for_loop (py_range (int k)) (\<lambda>j. Field_iterate) f = (None, g)
              \<and> wf_Field g \<and> f_n g = int k \<and> f_num_n g = f_num_n f"
proof (induction k)
  case 0
  then show ?case using assms by (simp add: py_range_0)
next
  case (Suc k)
  then obtain g where g: "for_loop (py_range (int k)) (\<lambda>j. Field_iterate) f = (None, g)"
    "wf_Field g" "f_n g = int k" "f_num_n g = f_num_n f" by auto
  have lt: "f_n g + 1 < f_num_n g" using g Suc.prems by simp
  obtain g' where g': "Field_iterate g = (None, g')"
    using wf_iterate [OF g(2) lt] by simp
  have "wf_Field g'" using wf_Field_iterate [OF g(2) lt] g' by simp
  moreover have "f_n g' = int (Suc k) \<and> f_num_n g' = f_num_n f"
    using wf_iterate [OF g(2) lt] g g' by (auto simp del: of_nat_Suc)
  ultimately show ?case
    by (simp add: py_range_Suc for_loop_append g(1) g' del: of_nat_Suc)
qed

subsection \<open>Reading a column outside the grid\<close>

text \<open>
  Claim C8. For every grid and every column index \<open>i\<close> with \<open>i < 0\<close> or \<open>i \<ge> num_i\<close>,
  \<open>get_index(i)\<close> returns zero and raises nothing, whatever the buffer holds and wherever
  the cursor is.
\<close>

theorem get_index_outside_is_zero:
  "i < 0 \<or> i \<ge> f_num_i f \<Longrightarrow> Field_get_index f i = Inr 0"
  by (simp add: Field_get_index_def)

theorem get_index_outside_is_zero_witness:
  "((- 1 :: int) < 0 \<or> - 1 \<ge> f_num_i \<lparr>f_n = 1, f_num_n = 2, f_num_i = 3, f_field = [[Fin 1, Fin 2, Fin 3], [Fin 4, Fin 5, Fin 6]]\<rparr>)
   \<and> Field_get_index \<lparr>f_n = 1, f_num_n = 2, f_num_i = 3, f_field = [[Fin 1, Fin 2, Fin 3], [Fin 4, Fin 5, Fin 6]]\<rparr> (- 1) = Inr 0"
  using get_index_outside_is_zero [of "- 1" "\<lparr>f_n = 1, f_num_n = 2, f_num_i = 3, f_field = [[Fin 1, Fin 2, Fin 3], [Fin 4, Fin 5, Fin 6]]\<rparr>"]
  by simp

subsection \<open>Writing a column outside the grid\<close>

text \<open>
  Claim C3 says that \<open>set_index(i, value)\<close> with \<open>i\<close> outside \<open>[0, num_i)\<close> is rejected and
  never lands in another cell. \<open>set_index\<close> has no bounds check of its own, so numpy's
  rule for negative indices applies: on a fresh 2 by 5 grid, \<open>set_index(-1, 7)\<close> returns
  normally and stores 7 in column 4 of the current row, while \<open>get_index(-1)\<close> on the
  same grid treats \<open>-1\<close> as outside the grid and returns zero.
\<close>

theorem set_index_minus_one_writes_last_column:
  "Field_init 2 5 None
     = Inr \<lparr>f_n = 0, f_num_n = 2, f_num_i = 5, f_field = [[0, 0, 0, 0, 0], [0, 0, 0, 0, 0]]\<rparr>
   \<and> Field_set_index
        \<lparr>f_n = 0, f_num_n = 2, f_num_i = 5, f_field = [[0, 0, 0, 0, 0], [0, 0, 0, 0, 0]]\<rparr> (- 1) (Fin 7)
     = (None, \<lparr>f_n = 0, f_num_n = 2, f_num_i = 5, f_field = [[0, 0, 0, 0, Fin 7], [0, 0, 0, 0, 0]]\<rparr>)
   \<and> Field_get_index
        \<lparr>f_n = 0, f_num_n = 2, f_num_i = 5, f_field = [[0, 0, 0, 0, 0], [0, 0, 0, 0, 0]]\<rparr> (- 1)
     = Inr 0"
  by (simp add: Field_init_def np_zeros_def Field_set_index_def Field_get_index_def
        np_setitem_def np_index_def eval_nat_numeral)

subsection \<open>Explicit row indices\<close>

text \<open>
  Claim C4 says that \<open>get_field(n)\<close> and \<open>set_field(newRow, n)\<close> fail for every explicitly
  passed \<open>n < 0\<close>. At \<open>n = -1\<close> they do not: \<open>-1\<close> is the value the parameter takes when
  the caller passes nothing, and it selects the current row.
\<close>

theorem explicit_minus_one_is_current_row:
  "Field_init 2 3 None = Inr \<lparr>f_n = 0, f_num_n = 2, f_num_i = 3, f_field = [[0, 0, 0], [0, 0, 0]]\<rparr>
   \<and> (- 1 :: int) < 0
   \<and> Field_get_field \<lparr>f_n = 0, f_num_n = 2, f_num_i = 3, f_field = [[0, 0, 0], [0, 0, 0]]\<rparr>
        (Some (- 1)) = Inr [0, 0, 0]
   \<and> Field_set_field \<lparr>f_n = 0, f_num_n = 2, f_num_i = 3, f_field = [[0, 0, 0], [0, 0, 0]]\<rparr>
        [Fin 1, Fin 2, Fin 3] (Some (- 1))
      = (None, \<lparr>f_n = 0, f_num_n = 2, f_num_i = 3, f_field = [[Fin 1, Fin 2, Fin 3], [0, 0, 0]]\<rparr>)"
  by (simp add: Field_init_def np_zeros_def Field_get_field_def Field_set_field_def
        np_getrow_def np_setrow_def np_index_def eval_nat_numeral)

text \<open>
  Claim C4, amended. For every grid and every explicitly passed \<open>n\<close> other than \<open>-1\<close>
  with \<open>n < 0\<close> or \<open>n \<ge> num_n\<close>, \<open>get_field(n)\<close> raises \<open>IndexError\<close>, and
  \<open>set_field(newRow, n)\<close> with \<open>newRow\<close> of length \<open>num_i\<close> raises \<open>IndexError\<close> and
  leaves the grid as it was. An explicit \<open>-1\<close> is the same call as passing no index.
\<close>

theorem explicit_row_index_out_of_range:
  "(n \<noteq> - 1 \<and> (n < 0 \<or> n \<ge> f_num_n f) \<longrightarrow>
      Field_get_field f (Some n) = Inl IndexError
      \<and> (int (length newRow) = f_num_i f \<longrightarrow>
           Field_set_field f newRow (Some n) = (Some IndexError, f)))
   \<and> Field_get_field f (Some (- 1)) = Field_get_field f None
   \<and> Field_set_field f newRow (Some (- 1)) = Field_set_field f newRow None"
  by (auto simp: Field_get_field_def Field_set_field_def)

theorem explicit_row_index_out_of_range_witness:
  "((2 :: int) \<noteq> - 1 \<and> ((2 :: int) < 0 \<or> 2 \<ge> f_num_n \<lparr>f_n = 1, f_num_n = 2, f_num_i = 3, f_field = [[Fin 1, Fin 2, Fin 3], [Fin 4, Fin 5, Fin 6]]\<rparr>))
   \<and> int (length [Fin 7, Fin 8, Fin 9]) = f_num_i \<lparr>f_n = 1, f_num_n = 2, f_num_i = 3, f_field = [[Fin 1, Fin 2, Fin 3], [Fin 4, Fin 5, Fin 6]]\<rparr>
   \<and> Field_get_field \<lparr>f_n = 1, f_num_n = 2, f_num_i = 3, f_field = [[Fin 1, Fin 2, Fin 3], [Fin 4, Fin 5, Fin 6]]\<rparr> (Some 2)
       = Inl IndexError
   \<and> Field_set_field \<lparr>f_n = 1, f_num_n = 2, f_num_i = 3, f_field = [[Fin 1, Fin 2, Fin 3], [Fin 4, Fin 5, Fin 6]]\<rparr> [Fin 7, Fin 8, Fin 9] (Some 2)
       = (Some IndexError, \<lparr>f_n = 1, f_num_n = 2, f_num_i = 3, f_field = [[Fin 1, Fin 2, Fin 3], [Fin 4, Fin 5, Fin 6]]\<rparr>)"
  using explicit_row_index_out_of_range
          [of 2 "\<lparr>f_n = 1, f_num_n = 2, f_num_i = 3, f_field = [[Fin 1, Fin 2, Fin 3], [Fin 4, Fin 5, Fin 6]]\<rparr>" "[Fin 7, Fin 8, Fin 9]"]
  by simp

subsection \<open>Advancing the cursor\<close>

text \<open>
  Claim C5. For every grid with cursor \<open>n\<close>: if \<open>n + 1 < num_n\<close>, \<open>iterate()\<close> copies row
  \<open>n\<close> into row \<open>n + 1\<close> and sets the cursor to \<open>n + 1\<close>; if \<open>n + 1 \<ge> num_n\<close> it raises
  \<open>IndexError\<close> and leaves the buffer and the cursor as they were. Hence, on a fresh grid,
  any \<open>k \<le> num_n - 1\<close> successive calls all succeed and leave the cursor at \<open>k\<close>, and
  after \<open>num_n - 1\<close> of them one more call fails.
\<close>

theorem iterate_copies_row_or_fails:
  "(wf_Field f \<longrightarrow>
      (f_n f + 1 < f_num_n f \<longrightarrow>
         Field_iterate f =
           (None, f\<lparr>f_field := (f_field f)[nat (f_n f + 1) := f_field f ! nat (f_n f)],
                    f_n := f_n f + 1\<rparr>))
    \<and> (f_n f + 1 \<ge> f_num_n f \<longrightarrow> Field_iterate f = (Some IndexError, f)))
   \<and> (Field_init num_n num_i None = Inr g \<longrightarrow>
        (\<forall>k. int k < num_n \<longrightarrow>
           (\<exists>g'. for_loop (py_range (int k)) (\<lambda>j. Field_iterate) g = (None, g')
                \<and> f_n g' = int k
                \<and> (int k = num_n - 1 \<longrightarrow> Field_iterate g' = (Some IndexError, g')))))"
proof (intro conjI impI allI)
  assume "wf_Field f" "f_n f + 1 < f_num_n f"
  then show "Field_iterate f =
           (None, f\<lparr>f_field := (f_field f)[nat (f_n f + 1) := f_field f ! nat (f_n f)],
                    f_n := f_n f + 1\<rparr>)"
    by (rule wf_iterate)
next
  assume "f_num_n f \<le> f_n f + 1"
  then show "Field_iterate f = (Some IndexError, f)" by (rule iterate_exhausted)
next
  fix k
  assume init: "Field_init num_n num_i None = Inr g" and k: "int k < num_n"
  from wf_Field_init [OF init] have g: "wf_Field g" "f_n g = 0" "f_num_n g = num_n" by simp_all
  from iterate_k_times [OF g(1) g(2), of k] k g(3)
  obtain g' where g': "for_loop (py_range (int k)) (\<lambda>j. Field_iterate) g = (None, g')"
    "f_n g' = int k" "f_num_n g' = num_n" by auto
  have "int k = num_n - 1 \<longrightarrow> Field_iterate g' = (Some IndexError, g')"
    using g' by (auto intro: iterate_exhausted)
  with g' show "\<exists>g'. for_loop (py_range (int k)) (\<lambda>j. Field_iterate) g = (None, g')
                \<and> f_n g' = int k
                \<and> (int k = num_n - 1 \<longrightarrow> Field_iterate g' = (Some IndexError, g'))"
    by blast
qed

theorem iterate_copies_row_or_fails_witness:
  "wf_Field \<lparr>f_n = 0, f_num_n = 3, f_num_i = 4, f_field = [[Fin 1, Fin 2, Fin 3, Fin 4], [0, 0, 0, 0], [0, 0, 0, 0]]\<rparr> \<and> f_n \<lparr>f_n = 0, f_num_n = 3, f_num_i = 4, f_field = [[Fin 1, Fin 2, Fin 3, Fin 4], [0, 0, 0, 0], [0, 0, 0, 0]]\<rparr> + 1 < f_num_n \<lparr>f_n = 0, f_num_n = 3, f_num_i = 4, f_field = [[Fin 1, Fin 2, Fin 3, Fin 4], [0, 0, 0, 0], [0, 0, 0, 0]]\<rparr>
   \<and> Field_iterate \<lparr>f_n = 0, f_num_n = 3, f_num_i = 4, f_field = [[Fin 1, Fin 2, Fin 3, Fin 4], [0, 0, 0, 0], [0, 0, 0, 0]]\<rparr> = (None, \<lparr>f_n = 1, f_num_n = 3, f_num_i = 4, f_field = [[Fin 1, Fin 2, Fin 3, Fin 4], [Fin 1, Fin 2, Fin 3, Fin 4], [0, 0, 0, 0]]\<rparr>)
   \<and> wf_Field \<lparr>f_n = 2, f_num_n = 3, f_num_i = 4, f_field = [[Fin 1, Fin 2, Fin 3, Fin 4], [Fin 1, Fin 2, Fin 3, Fin 4], [Fin 1, Fin 2, Fin 3, Fin 4]]\<rparr> \<and> f_n \<lparr>f_n = 2, f_num_n = 3, f_num_i = 4, f_field = [[Fin 1, Fin 2, Fin 3, Fin 4], [Fin 1, Fin 2, Fin 3, Fin 4], [Fin 1, Fin 2, Fin 3, Fin 4]]\<rparr> + 1 \<ge> f_num_n \<lparr>f_n = 2, f_num_n = 3, f_num_i = 4, f_field = [[Fin 1, Fin 2, Fin 3, Fin 4], [Fin 1, Fin 2, Fin 3, Fin 4], [Fin 1, Fin 2, Fin 3, Fin 4]]\<rparr>
   \<and> Field_iterate \<lparr>f_n = 2, f_num_n = 3, f_num_i = 4, f_field = [[Fin 1, Fin 2, Fin 3, Fin 4], [Fin 1, Fin 2, Fin 3, Fin 4], [Fin 1, Fin 2, Fin 3, Fin 4]]\<rparr> = (Some IndexError, \<lparr>f_n = 2, f_num_n = 3, f_num_i = 4, f_field = [[Fin 1, Fin 2, Fin 3, Fin 4], [Fin 1, Fin 2, Fin 3, Fin 4], [Fin 1, Fin 2, Fin 3, Fin 4]]\<rparr>)
   \<and> Field_init 3 4 None = Inr \<lparr>f_n = 0, f_num_n = 3, f_num_i = 4, f_field = [[0, 0, 0, 0], [0, 0, 0, 0], [0, 0, 0, 0]]\<rparr>
   \<and> int 2 < 3
   \<and> (\<exists>g'. for_loop (py_range (int 2)) (\<lambda>j. Field_iterate) \<lparr>f_n = 0, f_num_n = 3, f_num_i = 4, f_field = [[0, 0, 0, 0], [0, 0, 0, 0], [0, 0, 0, 0]]\<rparr> = (None, g')
           \<and> f_n g' = int 2 \<and> Field_iterate g' = (Some IndexError, g'))"
proof -
  have wf0: "wf_Field \<lparr>f_n = 0, f_num_n = 3, f_num_i = 4, f_field = [[Fin 1, Fin 2, Fin 3, Fin 4], [0, 0, 0, 0], [0, 0, 0, 0]]\<rparr>"
    by (simp add: wf_Field_def)
  have wf2: "wf_Field \<lparr>f_n = 2, f_num_n = 3, f_num_i = 4, f_field = [[Fin 1, Fin 2, Fin 3, Fin 4], [Fin 1, Fin 2, Fin 3, Fin 4], [Fin 1, Fin 2, Fin 3, Fin 4]]\<rparr>"
    by (simp add: wf_Field_def)
  have init: "Field_init 3 4 None = Inr \<lparr>f_n = 0, f_num_n = 3, f_num_i = 4, f_field = [[0, 0, 0, 0], [0, 0, 0, 0], [0, 0, 0, 0]]\<rparr>"
    by (simp add: Field_init_def np_zeros_def eval_nat_numeral)
  have a: "Field_iterate \<lparr>f_n = 0, f_num_n = 3, f_num_i = 4, f_field = [[Fin 1, Fin 2, Fin 3, Fin 4], [0, 0, 0, 0], [0, 0, 0, 0]]\<rparr> = (None, \<lparr>f_n = 1, f_num_n = 3, f_num_i = 4, f_field = [[Fin 1, Fin 2, Fin 3, Fin 4], [Fin 1, Fin 2, Fin 3, Fin 4], [0, 0, 0, 0]]\<rparr>)"
    using iterate_copies_row_or_fails [of "\<lparr>f_n = 0, f_num_n = 3, f_num_i = 4, f_field = [[Fin 1, Fin 2, Fin 3, Fin 4], [0, 0, 0, 0], [0, 0, 0, 0]]\<rparr>" 3 4 "\<lparr>f_n = 0, f_num_n = 3, f_num_i = 4, f_field = [[0, 0, 0, 0], [0, 0, 0, 0], [0, 0, 0, 0]]\<rparr>"] wf0
    by (simp add: eval_nat_numeral)
  have b: "Field_iterate \<lparr>f_n = 2, f_num_n = 3, f_num_i = 4, f_field = [[Fin 1, Fin 2, Fin 3, Fin 4], [Fin 1, Fin 2, Fin 3, Fin 4], [Fin 1, Fin 2, Fin 3, Fin 4]]\<rparr> = (Some IndexError, \<lparr>f_n = 2, f_num_n = 3, f_num_i = 4, f_field = [[Fin 1, Fin 2, Fin 3, Fin 4], [Fin 1, Fin 2, Fin 3, Fin 4], [Fin 1, Fin 2, Fin 3, Fin 4]]\<rparr>)"
    using iterate_copies_row_or_fails [of "\<lparr>f_n = 2, f_num_n = 3, f_num_i = 4, f_field = [[Fin 1, Fin 2, Fin 3, Fin 4], [Fin 1, Fin 2, Fin 3, Fin 4], [Fin 1, Fin 2, Fin 3, Fin 4]]\<rparr>" 3 4 "\<lparr>f_n = 0, f_num_n = 3, f_num_i = 4, f_field = [[0, 0, 0, 0], [0, 0, 0, 0], [0, 0, 0, 0]]\<rparr>"] wf2
    by simp
  have c: "\<exists>g'. for_loop (py_range (int 2)) (\<lambda>j. Field_iterate) \<lparr>f_n = 0, f_num_n = 3, f_num_i = 4, f_field = [[0, 0, 0, 0], [0, 0, 0, 0], [0, 0, 0, 0]]\<rparr> = (None, g')
           \<and> f_n g' = int 2 \<and> Field_iterate g' = (Some IndexError, g')"
  proof -
    have "\<forall>k. int k < 3 \<longrightarrow>
           (\<exists>g'. for_loop (py_range (int k)) (\<lambda>j. Field_iterate) \<lparr>f_n = 0, f_num_n = 3, f_num_i = 4, f_field = [[0, 0, 0, 0], [0, 0, 0, 0], [0, 0, 0, 0]]\<rparr> = (None, g')
                \<and> f_n g' = int k
                \<and> (int k = 3 - 1 \<longrightarrow> Field_iterate g' = (Some IndexError, g')))"
      using iterate_copies_row_or_fails [of "\<lparr>f_n = 0, f_num_n = 3, f_num_i = 4, f_field = [[Fin 1, Fin 2, Fin 3, Fin 4], [0, 0, 0, 0], [0, 0, 0, 0]]\<rparr>" 3 4 "\<lparr>f_n = 0, f_num_n = 3, f_num_i = 4, f_field = [[0, 0, 0, 0], [0, 0, 0, 0], [0, 0, 0, 0]]\<rparr>"] init
      by blast
    from this [THEN spec, of 2] show ?thesis by simp
  qed
  show ?thesis using wf0 wf2 init a b c by simp
qed

subsection \<open>A grid with no rows\<close>

text \<open>
  Claim C10 says that on a grid constructed with \<open>num_n = 0\<close> and no caller-supplied
  buffer, \<open>get_index(i)\<close> returns zero for every \<open>i\<close>. With \<open>num_i = 3\<close> the column
  \<open>i = 1\<close> passes the bounds check of \<open>get_index\<close>, and the read of row 0 of a buffer
  with no rows raises \<open>IndexError\<close>.
\<close>

theorem empty_grid_in_range_read_raises:
  "Field_init 0 3 None = Inr \<lparr>f_n = 0, f_num_n = 0, f_num_i = 3, f_field = []\<rparr>
   \<and> Field_get_index \<lparr>f_n = 0, f_num_n = 0, f_num_i = 3, f_field = []\<rparr> 1 = Inl IndexError"
  by (simp add: Field_init_def np_zeros_def Field_get_index_def np_getitem_def np_index_def)

text \<open>
  Claim C10, amended. A grid constructed with \<open>num_n = 0\<close> and no caller-supplied buffer
  has cursor 0, so \<open>0 \<le> n < num_n\<close> does not hold at creation; on such a grid
  \<open>get_index(i)\<close> returns zero for every \<open>i\<close> outside \<open>[0, num_i)\<close>, which is every \<open>i\<close>
  when \<open>num_i\<close> is 0 as well (the constructor's defaults), and raises \<open>IndexError\<close> for
  \<open>i\<close> inside; \<open>get_field()\<close> with no argument raises \<open>IndexError\<close>.
\<close>

theorem grid_without_rows:
  "0 \<le> num_i \<Longrightarrow>
     \<exists>f. Field_init 0 num_i None = Inr f
        \<and> Field_get_time_index f = 0
        \<and> \<not> (0 \<le> f_n f \<and> f_n f < f_num_n f)
        \<and> (\<forall>i. Field_get_index f i = (if 0 \<le> i \<and> i < num_i then Inl IndexError else Inr 0))
        \<and> Field_get_field f None = Inl IndexError"
  by (auto simp: Field_init_def np_zeros_def Field_get_time_index_def Field_get_index_def
        Field_get_field_def np_getitem_def np_getrow_def np_index_def)

theorem grid_without_rows_witness:
  "(0 :: int) \<le> 0
   \<and> Field_init 0 0 None = Inr \<lparr>f_n = 0, f_num_n = 0, f_num_i = 0, f_field = []\<rparr>
   \<and> (\<forall>i. Field_get_index \<lparr>f_n = 0, f_num_n = 0, f_num_i = 0, f_field = []\<rparr> i = Inr 0)
   \<and> Field_get_field \<lparr>f_n = 0, f_num_n = 0, f_num_i = 0, f_field = []\<rparr> None = Inl IndexError"
  using grid_without_rows [of 0]
  by (auto simp: Field_init_def np_zeros_def)

section \<open>Properties of Sim\<close>

subsection \<open>Rows under the cursor\<close>

lemma for_loop_invariant:
  assumes step: "\<And>m s. m < N \<Longrightarrow> I m s \<Longrightarrow> \<exists>s'. body (int m) s = (None, s') \<and> I (Suc m) s'"
    and init: "I 0 s"
  shows "\<exists>s'. for_loop (py_range (int N)) body s = (None, s') \<and> I N s'"
proof -
  have "k \<le> N \<Longrightarrow> \<exists>s'. for_loop (py_range (int k)) body s = (None, s') \<and> I k s'" for k
  proof (induction k)
    case 0
    then show ?case using init by (simp add: py_range_0)
  next
    case (Suc k)
    then obtain s1 where s1: "for_loop (py_range (int k)) body s = (None, s1)" "I k s1"
      by auto
    from Suc.prems have "k < N" by simp
    from step [OF this s1(2)] obtain s2 where s2: "body (int k) s1 = (None, s2)" "I (Suc k) s2"
      by auto
    show ?case
      by (simp add: py_range_Suc for_loop_append s1(1) s2 del: of_nat_Suc)
  qed
  then show ?thesis by simp
qed

lemma on_row_facts:
  assumes "on_row f"
  shows "0 \<le> f_n f" "f_n f < int (length (f_field f))" "0 \<le> f_num_i f"
    "length (cur_row f) = nat (f_num_i f)" "nat (f_n f) < length (f_field f)"
  using assms by (auto simp: on_row_def wf_Field_def cur_row_def list_all_length)

lemma get_index_on_row:
  assumes "on_row f"
  shows "Field_get_index f i = Inr (zero_outside (cur_row f) i)"
proof (cases "i < 0 \<or> i \<ge> f_num_i f")
  case True
  then show ?thesis using on_row_facts [OF assms]
    by (auto simp: Field_get_index_def zero_outside_def)
next
  case False
  then have i: "0 \<le> i" "i < f_num_i f" by auto
  have r: "np_index (length (f_field f)) (f_n f) = Inr (nat (f_n f))"
    using on_row_facts [OF assms] by (simp add: np_index_in_range)
  have c: "np_index (length (f_field f ! nat (f_n f))) i = Inr (nat i)"
    using on_row_facts(4) [OF assms] i by (simp add: np_index_in_range cur_row_def)
  show ?thesis using i on_row_facts(4) [OF assms]
    by (simp add: Field_get_index_def np_getitem_def r np_index_in_range zero_outside_def
          cur_row_def)
qed

lemma set_index_on_row:
  assumes "on_row f" "0 \<le> i" "i < f_num_i f"
  shows "Field_set_index f i v = (None, set_cur_row f ((cur_row f)[nat i := v]))"
proof -
  have r: "np_index (length (f_field f)) (f_n f) = Inr (nat (f_n f))"
    using on_row_facts [OF assms(1)] by (simp add: np_index_in_range)
  have c: "np_index (length (f_field f ! nat (f_n f))) i = Inr (nat i)"
    using on_row_facts(4) [OF assms(1)] assms(2,3) by (simp add: np_index_in_range cur_row_def)
  show ?thesis using assms(2,3) on_row_facts(4) [OF assms(1)]
    by (simp add: Field_set_index_def np_setitem_def r np_index_in_range set_cur_row_def
          cur_row_def)
qed

lemma set_cur_row_facts:
  "f_n (set_cur_row f r) = f_n f" "f_num_n (set_cur_row f r) = f_num_n f"
  "f_num_i (set_cur_row f r) = f_num_i f"
  "set_cur_row (set_cur_row f r) r' = set_cur_row f r'"
  by (simp_all add: set_cur_row_def)

lemma set_cur_row_same: "set_cur_row f (cur_row f) = f"
  by (simp add: set_cur_row_def cur_row_def)

lemma cur_row_set_cur_row:
  "on_row f \<Longrightarrow> cur_row (set_cur_row f r) = r"
  using on_row_facts(5) [of f] by (simp add: set_cur_row_def cur_row_def)

lemma on_row_set_cur_row:
  assumes "on_row f" "length r = nat (f_num_i f)"
  shows "on_row (set_cur_row f r)"
  using assms
  by (auto simp: on_row_def wf_Field_def set_cur_row_def list_all_length nth_list_update)


lemma partial_row_update:
  "m < length R \<Longrightarrow>
     (map g [0..<m] @ drop m R)[m := g m] = map g [0..<Suc m] @ drop (Suc m) R"
  by (simp add: list_update_append Cons_nth_drop_Suc [symmetric])

lemma partial_row_nth: "m < length R \<Longrightarrow> (map g [0..<m] @ drop m R) ! m = R ! m"
  by (simp add: nth_append)

lemma partial_row_length: "m \<le> length R \<Longrightarrow> length (map g [0..<m] @ drop m R) = length R"
  by simp

lemma zero_outside_in: "i < length R \<Longrightarrow> zero_outside R (int i) = R ! i"
  by (simp add: zero_outside_def)

lemma calc_hfield_body_on_row:
  assumes "on_row (s_efield s)" "on_row (s_hfield s)" "0 \<le> i" "i < f_num_i (s_hfield s)"
  shows "calc_hfield_body i s =
    (None, s\<lparr>s_hfield := set_cur_row (s_hfield s)
       ((cur_row (s_hfield s))[nat i := zero_outside (cur_row (s_hfield s)) i
           - s_h_calc_term2_prop_coeff s
             * (zero_outside (cur_row (s_efield s)) (i + 1)
                - zero_outside (cur_row (s_efield s)) i)])\<rparr>)"
  using assms
  by (simp add: calc_hfield_body_def read_then_def get_index_on_row on_hfield_def
        set_index_on_row Let_def)

lemma calc_efield_body_on_row:
  assumes "on_row (s_efield s)" "on_row (s_hfield s)" "on_row (s_cfield s)"
    "0 \<le> i" "i < f_num_i (s_efield s)"
  shows "calc_efield_body i s =
    (None, s\<lparr>s_efield := set_cur_row (s_efield s)
       ((cur_row (s_efield s))[nat i :=
           s_e_calc_term1_prop_coeff s * zero_outside (cur_row (s_efield s)) i
           + s_e_calc_term2_prop_coeff s * psi s
           - s_e_calc_term3_prop_coeff s
             * (zero_outside (cur_row (s_hfield s)) i
                - zero_outside (cur_row (s_hfield s)) (i - 1))
           - s_e_calc_term4_prop_coeff s * zero_outside (cur_row (s_cfield s)) i])\<rparr>)"
  using assms
  by (simp add: calc_efield_body_def read_then_def get_index_on_row on_efield_def
        set_index_on_row Let_def current_def)

lemma calc_hfield_ready:
  assumes "ready s"
  shows "calc_hfield s =
    (None, s\<lparr>s_hfield := set_cur_row (s_hfield s)
       (spec_hfield_row (s_h_calc_term2_prop_coeff s)
          (cur_row (s_efield s)) (cur_row (s_hfield s)))\<rparr>)"
proof -
  define E where "E = cur_row (s_efield s)"
  define H where "H = cur_row (s_hfield s)"
  define N where "N = nat (s_num_i s)"
  define g where "g = (\<lambda>i. H ! i - s_h_calc_term2_prop_coeff s * (zero_outside E (int i + 1) - E ! i))"
  define I where "I = (\<lambda>m s'. s' = s\<lparr>s_hfield := set_cur_row (s_hfield s) (map g [0..<m] @ drop m H)\<rparr>)"
  from assms have oe: "on_row (s_efield s)" and oh: "on_row (s_hfield s)"
    and ni: "f_num_i (s_efield s) = s_num_i s" "f_num_i (s_hfield s) = s_num_i s"
    by (simp_all add: ready_def)
  have lenE: "length E = N" and lenH: "length H = N" and nn: "0 \<le> s_num_i s"
    using on_row_facts [OF oe] on_row_facts [OF oh] ni by (simp_all add: E_def H_def N_def)
  have step: "\<exists>s'. calc_hfield_body (int m) t = (None, s') \<and> I (Suc m) s'"
    if m: "m < N" and t: "I m t" for m t
  proof -
    let ?P = "map g [0..<m] @ drop m H"
    have lenP: "length ?P = nat (f_num_i (s_hfield s))"
      using m lenH ni by (simp add: N_def)
    have te: "s_efield t = s_efield s" and th: "s_hfield t = set_cur_row (s_hfield s) ?P"
      and tc: "s_h_calc_term2_prop_coeff t = s_h_calc_term2_prop_coeff s"
      using t by (simp_all add: I_def)
    have oh': "on_row (s_hfield t)"
      unfolding th by (rule on_row_set_cur_row [OF oh lenP])
    have cr: "cur_row (s_hfield t) = ?P"
      unfolding th by (rule cur_row_set_cur_row [OF oh])
    have rng: "0 \<le> int m" "int m < f_num_i (s_hfield t)"
      using m ni nn by (simp_all add: th set_cur_row_facts N_def)
    have zP: "zero_outside ?P (int m) = H ! m"
      using m lenH by (simp add: zero_outside_def nth_append)
    have zE: "zero_outside E (int m) = E ! m"
      using m lenE by (simp add: zero_outside_def)
    have upd: "?P[m := g m] = map g [0..<Suc m] @ drop (Suc m) H"
      using m lenH by (intro partial_row_update) simp
    have "calc_hfield_body (int m) t =
        (None, t\<lparr>s_hfield := set_cur_row (s_hfield t) (?P[m := g m])\<rparr>)"
      using calc_hfield_body_on_row [of t "int m", OF _ oh' rng] oe
      by (simp add: te cr tc zP [unfolded g_def] zE g_def E_def [symmetric])
    also have "t\<lparr>s_hfield := set_cur_row (s_hfield t) (?P[m := g m])\<rparr>
        = s\<lparr>s_hfield := set_cur_row (s_hfield s) (map g [0..<Suc m] @ drop (Suc m) H)\<rparr>"
      using t by (simp add: I_def set_cur_row_facts upd)
    finally show ?thesis by (simp add: I_def)
  qed
  have init: "I 0 s"
    by (simp add: I_def H_def set_cur_row_same)
  from for_loop_invariant [of N I calc_hfield_body s, OF step init]
  have "for_loop (py_range (int N)) calc_hfield_body s
          = (None, s\<lparr>s_hfield := set_cur_row (s_hfield s) (map g [0..<N] @ drop N H)\<rparr>)"
    by (auto simp: I_def)
  moreover have "int N = s_num_i s" using nn by (simp add: N_def)
  moreover have "map g [0..<N] @ drop N H
      = spec_hfield_row (s_h_calc_term2_prop_coeff s) E H"
    using lenH by (simp add: spec_hfield_row_def g_def)
  ultimately show ?thesis
    by (simp add: calc_hfield_def E_def H_def)
qed


lemma calc_efield_ready:
  assumes "ready s"
  shows "calc_efield s =
    (None, s\<lparr>s_efield := set_cur_row (s_efield s)
       (spec_efield_row (s_e_calc_term1_prop_coeff s) (s_e_calc_term2_prop_coeff s)
          (s_e_calc_term3_prop_coeff s) (s_e_calc_term4_prop_coeff s) (psi s)
          (cur_row (s_efield s)) (cur_row (s_hfield s)) (cur_row (s_cfield s)))\<rparr>)"
proof -
  define E where "E = cur_row (s_efield s)"
  define H where "H = cur_row (s_hfield s)"
  define J where "J = cur_row (s_cfield s)"
  define N where "N = nat (s_num_i s)"
  define g where "g = (\<lambda>i. s_e_calc_term1_prop_coeff s * (E ! i)
       + s_e_calc_term2_prop_coeff s * psi s
       - s_e_calc_term3_prop_coeff s * (H ! i - zero_outside H (int i - 1))
       - s_e_calc_term4_prop_coeff s * zero_outside J (int i))"
  define I where "I = (\<lambda>m s'. s' = s\<lparr>s_efield := set_cur_row (s_efield s) (map g [0..<m] @ drop m E)\<rparr>)"
  from assms have oe: "on_row (s_efield s)" and oh: "on_row (s_hfield s)"
    and oc: "on_row (s_cfield s)"
    and ni: "f_num_i (s_efield s) = s_num_i s" "f_num_i (s_hfield s) = s_num_i s"
    by (simp_all add: ready_def)
  have lenE: "length E = N" and lenH: "length H = N" and nn: "0 \<le> s_num_i s"
    using on_row_facts [OF oe] on_row_facts [OF oh] ni by (simp_all add: E_def H_def N_def)
  have step: "\<exists>s'. calc_efield_body (int m) t = (None, s') \<and> I (Suc m) s'"
    if m: "m < N" and t: "I m t" for m t
  proof -
    let ?P = "map g [0..<m] @ drop m E"
    have lenP: "length ?P = nat (f_num_i (s_efield s))"
      using m lenE ni by (simp add: N_def)
    have th: "s_hfield t = s_hfield s" and tj: "s_cfield t = s_cfield s"
      and te: "s_efield t = set_cur_row (s_efield s) ?P"
      and tc: "s_e_calc_term1_prop_coeff t = s_e_calc_term1_prop_coeff s"
        "s_e_calc_term2_prop_coeff t = s_e_calc_term2_prop_coeff s"
        "s_e_calc_term3_prop_coeff t = s_e_calc_term3_prop_coeff s"
        "s_e_calc_term4_prop_coeff t = s_e_calc_term4_prop_coeff s"
      using t by (simp_all add: I_def)
    have oe': "on_row (s_efield t)"
      unfolding te by (rule on_row_set_cur_row [OF oe lenP])
    have cr: "cur_row (s_efield t) = ?P"
      unfolding te by (rule cur_row_set_cur_row [OF oe])
    have rng: "0 \<le> int m" "int m < f_num_i (s_efield t)"
      using m ni nn by (simp_all add: te set_cur_row_facts N_def)
    have zP: "zero_outside ?P (int m) = E ! m"
      using m lenE by (simp add: zero_outside_def nth_append)
    have zH: "zero_outside H (int m) = H ! m"
      using m lenH by (simp add: zero_outside_def)
    have upd: "?P[m := g m] = map g [0..<Suc m] @ drop (Suc m) E"
      using m lenE by (intro partial_row_update) simp
    have gm: "g m = s_e_calc_term1_prop_coeff s * (E ! m)
       + s_e_calc_term2_prop_coeff s * psi t
       - s_e_calc_term3_prop_coeff s * (H ! m - zero_outside H (int m - 1))
       - s_e_calc_term4_prop_coeff s * zero_outside J (int m)"
      by (simp add: g_def psi_def)
    have "calc_efield_body (int m) t =
        (None, t\<lparr>s_efield := set_cur_row (s_efield t) (?P[m := g m])\<rparr>)"
      using calc_efield_body_on_row [of t "int m", OF oe' _ _ rng] oh oc
      by (simp only: th tj cr tc zP zH gm H_def [symmetric] J_def [symmetric] nat_int)
    also have "t\<lparr>s_efield := set_cur_row (s_efield t) (?P[m := g m])\<rparr>
        = s\<lparr>s_efield := set_cur_row (s_efield s) (map g [0..<Suc m] @ drop (Suc m) E)\<rparr>"
      using t by (simp add: I_def set_cur_row_facts upd)
    finally show ?thesis by (simp add: I_def)
  qed
  have init: "I 0 s"
    by (simp add: I_def E_def set_cur_row_same)
  from for_loop_invariant [of N I calc_efield_body s, OF step init]
  have "for_loop (py_range (int N)) calc_efield_body s
          = (None, s\<lparr>s_efield := set_cur_row (s_efield s) (map g [0..<N] @ drop N E)\<rparr>)"
    by (auto simp: I_def)
  moreover have "int N = s_num_i s" using nn by (simp add: N_def)
  moreover have "map g [0..<N] @ drop N E
      = spec_efield_row (s_e_calc_term1_prop_coeff s) (s_e_calc_term2_prop_coeff s)
          (s_e_calc_term3_prop_coeff s) (s_e_calc_term4_prop_coeff s) (psi s) E H J"
    using lenE by (simp add: spec_efield_row_def g_def)
  ultimately show ?thesis
    by (simp add: calc_efield_def E_def H_def J_def)
qed

subsection \<open>What the operations leave alone\<close>

lemma for_loop_preserves:
  assumes "\<And>i s. \<phi> (snd (body i s)) = \<phi> s"
  shows "\<phi> (snd (for_loop xs body s)) = \<phi> s"
proof (induction xs arbitrary: s)
  case Nil
  then show ?case by simp
next
  case (Cons i xs)
  show ?case
  proof (cases "body i s")
    case (Pair r s')
    then have "\<phi> s' = \<phi> s" using assms [of i s] by simp
    then show ?thesis using Pair Cons.IH [of s'] by (cases r) simp_all
  qed
qed


lemma set_index_keeps_cursor: "f_n (snd (Field_set_index f i v)) = f_n f"
  by (simp add: Field_set_index_def split: sum.splits)

lemma set_index_result_cursor: "Field_set_index f i v = (r, f') \<Longrightarrow> f_n f' = f_n f"
  using set_index_keeps_cursor [of f i v] by simp

lemma calc_hfield_body_frame:
  "(\<lambda>s. (s_efield s, s_cfield s, coeffs s, f_n (s_hfield s))) (snd (calc_hfield_body i s))
     = (s_efield s, s_cfield s, coeffs s, f_n (s_hfield s))"
  by (auto simp: calc_hfield_body_def read_then_def on_hfield_def coeffs_def Let_def
        split: sum.splits prod.splits dest: set_index_result_cursor)

lemma calc_efield_body_frame:
  "(\<lambda>s. (s_hfield s, s_cfield s, coeffs s, f_n (s_efield s))) (snd (calc_efield_body i s))
     = (s_hfield s, s_cfield s, coeffs s, f_n (s_efield s))"
  by (auto simp: calc_efield_body_def read_then_def on_efield_def coeffs_def Let_def
        split: sum.splits prod.splits dest: set_index_result_cursor)

lemma calc_hfield_frame:
  "s_efield (snd (calc_hfield s)) = s_efield s"
  "s_cfield (snd (calc_hfield s)) = s_cfield s"
  "coeffs (snd (calc_hfield s)) = coeffs s"
  "f_n (s_hfield (snd (calc_hfield s))) = f_n (s_hfield s)"
  using for_loop_preserves [of "\<lambda>s. (s_efield s, s_cfield s, coeffs s, f_n (s_hfield s))"
          calc_hfield_body "py_range (s_num_i s)" s, OF calc_hfield_body_frame]
  by (simp_all add: calc_hfield_def)

lemma calc_efield_frame:
  "s_hfield (snd (calc_efield s)) = s_hfield s"
  "s_cfield (snd (calc_efield s)) = s_cfield s"
  "coeffs (snd (calc_efield s)) = coeffs s"
  "f_n (s_efield (snd (calc_efield s))) = f_n (s_efield s)"
  using for_loop_preserves [of "\<lambda>s. (s_hfield s, s_cfield s, coeffs s, f_n (s_efield s))"
          calc_efield_body "py_range (s_num_i s)" s, OF calc_efield_body_frame]
  by (simp_all add: calc_efield_def)







lemma sim_step_stages:
  "sim_step s = (None, s') \<Longrightarrow>
     \<exists>s1 s2 s3 s4. calc_hfield s = (None, s1) \<and> calc_efield s1 = (None, s2)
       \<and> on_hfield Field_iterate s2 = (None, s3) \<and> on_efield Field_iterate s3 = (None, s4)
       \<and> iterate_cfield s4 = (None, s')"
  by (auto simp: sim_step_def and_then_def split: prod.splits option.splits)

lemma iterate_result_cursor: "Field_iterate f = (None, f') \<Longrightarrow> f_n f' = f_n f + 1"
  by (auto simp: Field_iterate_def split: if_splits sum.splits)

lemma on_hfield_result:
  "on_hfield m s = (r, s') \<Longrightarrow> m (s_hfield s) = (r, s_hfield s') \<and> s' = s\<lparr>s_hfield := s_hfield s'\<rparr>"
  by (auto simp: on_hfield_def split: prod.splits)

lemma on_efield_result:
  "on_efield m s = (r, s') \<Longrightarrow> m (s_efield s) = (r, s_efield s') \<and> s' = s\<lparr>s_efield := s_efield s'\<rparr>"
  by (auto simp: on_efield_def split: prod.splits)

lemma iterate_cfield_result:
  "iterate_cfield s = (None, s') \<Longrightarrow>
     s' = s\<lparr>s_cfield := (s_cfield s)\<lparr>f_n := f_n (s_cfield s) + 1\<rparr>\<rparr>"
  by (auto simp: iterate_cfield_def on_cfield_def Field_set_time_index_def
        Field_get_time_index_def Let_def split: if_splits)

subsection \<open>One pass of the loop in closed form\<close>

lemma py_range_1: "py_range 1 = [0]"
  by (simp add: py_range_def)

lemmas field_defs = Field_init_def np_zeros_def Field_set_time_index_def Field_get_time_index_def
  Field_get_index_def Field_set_index_def Field_iterate_def np_getitem_def np_setitem_def
  np_getrow_def np_setrow_def np_index_def

lemmas sim_defs = Sim_init_def f64_eval simulate_def reset_time_def sim_step_def and_then_def
  on_efield_def on_hfield_def on_cfield_def calc_hfield_def calc_efield_def
  calc_hfield_body_def calc_efield_body_def read_then_def iterate_cfield_def current_def psi_def

lemma impulse_sim_init: "Sim_init (Fin 1) (Fin 1) (Fin 1) (Fin 1) (Fin 2) 2 1 impulse_2x1 0 0 = Inr impulse_sim"
  by (simp add: Sim_init_def f64_eval Field_init_def np_zeros_def impulse_sim_def
        eval_nat_numeral)

lemma spec_row_lengths:
  "length (spec_hfield_row ch E H) = length H"
  "length (spec_efield_row c1 c2 c3 c4 ps E H J) = length E"
  by (simp_all add: spec_hfield_row_def spec_efield_row_def)

lemma on_row_advance:
  assumes "on_row f" "f_n f + 1 < f_num_n f"
  shows "Field_iterate f = (None, advanced f)" "on_row (advanced f)"
proof -
  from assms have wf: "wf_Field f" by (simp add: on_row_def)
  show a: "Field_iterate f = (None, advanced f)"
    using wf_iterate [OF wf assms(2)] by (simp add: advanced_def)
  have "wf_Field (advanced f)" using wf_Field_iterate [OF wf assms(2)] a by simp
  then show "on_row (advanced f)" using assms(2) by (simp add: on_row_def advanced_def)
qed

lemma leapfrog_pass_ready:
  assumes r: "ready s"
    and H': "H' = spec_hfield_row (s_h_calc_term2_prop_coeff s)
                    (cur_row (s_efield s)) (cur_row (s_hfield s))"
    and E': "E' = spec_efield_row (s_e_calc_term1_prop_coeff s) (s_e_calc_term2_prop_coeff s)
                    (s_e_calc_term3_prop_coeff s) (s_e_calc_term4_prop_coeff s) (psi s)
                    (cur_row (s_efield s)) H' (cur_row (s_cfield s))"
    and s1: "s1 = s\<lparr>s_hfield := set_cur_row (s_hfield s) H'\<rparr>"
    and s2: "s2 = s1\<lparr>s_efield := set_cur_row (s_efield s) E'\<rparr>"
  shows "calc_hfield s = (None, s1)" "calc_efield s1 = (None, s2)" "ready s1" "ready s2"
proof -
  from r have oe: "on_row (s_efield s)" and oh: "on_row (s_hfield s)"
    and oc: "on_row (s_cfield s)"
    and ni: "f_num_i (s_efield s) = s_num_i s" "f_num_i (s_hfield s) = s_num_i s"
    by (simp_all add: ready_def)
  show a: "calc_hfield s = (None, s1)"
    using calc_hfield_ready [OF r] by (simp add: s1 H')
  have lH: "length H' = nat (f_num_i (s_hfield s))"
    using on_row_facts(4) [OF oh] by (simp add: H' spec_row_lengths)
  have oh1: "on_row (set_cur_row (s_hfield s) H')"
    by (rule on_row_set_cur_row [OF oh lH])
  show r1: "ready s1"
    using oe oc ni oh1 by (simp add: ready_def s1 set_cur_row_facts)
  have cr: "cur_row (s_hfield s1) = H'"
    by (simp add: s1 cur_row_set_cur_row [OF oh])
  show "calc_efield s1 = (None, s2)"
    using calc_efield_ready [OF r1] unfolding cr
    by (simp add: s2 s1 E' psi_def)
  have lE: "length E' = nat (f_num_i (s_efield s))"
    using on_row_facts(4) [OF oe] by (simp add: E' spec_row_lengths)
  have oe2: "on_row (set_cur_row (s_efield s) E')"
    by (rule on_row_set_cur_row [OF oe lE])
  show "ready s2"
    using oe2 oc ni oh1 by (simp add: ready_def s2 s1 set_cur_row_facts)
qed

lemma sim_step_ready:
  assumes r: "ready s"
    and H': "H' = spec_hfield_row (s_h_calc_term2_prop_coeff s)
                    (cur_row (s_efield s)) (cur_row (s_hfield s))"
    and E': "E' = spec_efield_row (s_e_calc_term1_prop_coeff s) (s_e_calc_term2_prop_coeff s)
                    (s_e_calc_term3_prop_coeff s) (s_e_calc_term4_prop_coeff s) (psi s)
                    (cur_row (s_efield s)) H' (cur_row (s_cfield s))"
    and more: "f_n (s_hfield s) + 1 < f_num_n (s_hfield s)"
      "f_n (s_efield s) + 1 < f_num_n (s_efield s)"
      "f_n (s_cfield s) + 1 < f_num_n (s_cfield s)"
  shows "sim_step s =
    (None, s\<lparr>s_hfield := advanced (set_cur_row (s_hfield s) H'),
             s_efield := advanced (set_cur_row (s_efield s) E'),
             s_cfield := (s_cfield s)\<lparr>f_n := f_n (s_cfield s) + 1\<rparr>\<rparr>)"
proof -
  define s1 where "s1 = s\<lparr>s_hfield := set_cur_row (s_hfield s) H'\<rparr>"
  define s2 where "s2 = s1\<lparr>s_efield := set_cur_row (s_efield s) E'\<rparr>"
  note p = leapfrog_pass_ready [OF r H' E' s1_def s2_def]
  from p(4) have oe: "on_row (s_efield s2)" and oh: "on_row (s_hfield s2)"
    by (simp_all add: ready_def)
  have h2: "s_hfield s2 = set_cur_row (s_hfield s) H'"
    and e2: "s_efield s2 = set_cur_row (s_efield s) E'"
    and c2: "s_cfield s2 = s_cfield s"
    by (simp_all add: s2_def s1_def)
  have ih: "Field_iterate (s_hfield s2) = (None, advanced (s_hfield s2))"
    using on_row_advance(1) [OF oh] more(1) by (simp add: h2 set_cur_row_facts)
  have ie: "Field_iterate (s_efield s2) = (None, advanced (s_efield s2))"
    using on_row_advance(1) [OF oe] more(2) by (simp add: e2 set_cur_row_facts)
  have "sim_step s =
      and_then (on_hfield Field_iterate) (and_then (on_efield Field_iterate) iterate_cfield) s2"
    unfolding sim_step_def by (simp add: and_then_def p(1) p(2))
  also have "\<dots> = (None, s2\<lparr>s_hfield := advanced (s_hfield s2),
             s_efield := advanced (s_efield s2),
             s_cfield := (s_cfield s2)\<lparr>f_n := f_n (s_cfield s2) + 1\<rparr>\<rparr>)"
    using more(3) on_row_facts(1) [of "s_cfield s"] r
    by (simp add: ready_def and_then_def on_hfield_def on_efield_def ih ie iterate_cfield_def
          on_cfield_def Field_set_time_index_def Field_get_time_index_def c2 Let_def)
  also have "s2\<lparr>s_hfield := advanced (s_hfield s2),
             s_efield := advanced (s_efield s2),
             s_cfield := (s_cfield s2)\<lparr>f_n := f_n (s_cfield s2) + 1\<rparr>\<rparr>
      = s\<lparr>s_hfield := advanced (set_cur_row (s_hfield s) H'),
             s_efield := advanced (set_cur_row (s_efield s) E'),
             s_cfield := (s_cfield s)\<lparr>f_n := f_n (s_cfield s) + 1\<rparr>\<rparr>"
    by (simp add: s2_def s1_def)
  finally show ?thesis .
qed

lemma reset_time_buffers:
  "f_field (s_efield (snd (reset_time s))) = f_field (s_efield s)
   \<and> f_field (s_hfield (snd (reset_time s))) = f_field (s_hfield s)
   \<and> f_field (s_cfield (snd (reset_time s))) = f_field (s_cfield s)"
  by (simp add: reset_time_def and_then_def on_efield_def on_hfield_def on_cfield_def
        Field_set_time_index_def split: prod.splits option.splits)

subsection \<open>The two updates of a pass\<close>

text \<open>
  Claim C2. A pass of the loop of \<open>simulate\<close> at cursor \<open>n\<close> first sets, for every column
  \<open>i\<close>, \<open>H[i]\<close> to \<open>H[i] - ch * (E[i+1] - E[i])\<close> from the electric row as it was before
  the pass (\<open>E[i+1]\<close> read as zero outside the grid), and then sets \<open>E[i]\<close> to
  \<open>c1 * E[i] + c2 * psi - c3 * (H[i] - H[i-1]) - c4 * J[i]\<close> from the magnetic row just
  written (\<open>H[i-1]\<close> read as zero outside the grid); \<open>psi\<close> is zero. Both loops return
  normally, nothing else in the simulation changes, and the pass goes on to advance the
  three fields from the state so reached.
\<close>

theorem leapfrog_pass:
  assumes "ready s"
    and "H' = spec_hfield_row (s_h_calc_term2_prop_coeff s)
                (cur_row (s_efield s)) (cur_row (s_hfield s))"
    and "E' = spec_efield_row (s_e_calc_term1_prop_coeff s) (s_e_calc_term2_prop_coeff s)
                (s_e_calc_term3_prop_coeff s) (s_e_calc_term4_prop_coeff s) (psi s)
                (cur_row (s_efield s)) H' (cur_row (s_cfield s))"
    and "s1 = s\<lparr>s_hfield := set_cur_row (s_hfield s) H'\<rparr>"
    and "s2 = s1\<lparr>s_efield := set_cur_row (s_efield s) E'\<rparr>"
  shows "calc_hfield s = (None, s1)
       \<and> calc_efield s1 = (None, s2)
       \<and> sim_step s =
           and_then (on_hfield Field_iterate) (and_then (on_efield Field_iterate) iterate_cfield) s2
       \<and> psi s = 0 \<and> psi s1 = 0"
proof -
  note p = leapfrog_pass_ready [OF assms]
  have "sim_step s =
      and_then (on_hfield Field_iterate) (and_then (on_efield Field_iterate) iterate_cfield) s2"
    unfolding sim_step_def by (simp add: and_then_def p(1) p(2))
  then show ?thesis using p(1,2) by (simp add: psi_def)
qed

theorem leapfrog_pass_witness:
  "ready pass_example
   \<and> calc_hfield pass_example
       = (None, pass_example\<lparr>s_hfield :=
            \<lparr>f_n = 0, f_num_n = 2, f_num_i = 3, f_field = [[Fin (7 / 2), Fin (9 / 2), Fin (15 / 2)], [0, 0, 0]]\<rparr>\<rparr>)
   \<and> calc_efield (pass_example\<lparr>s_hfield :=
            \<lparr>f_n = 0, f_num_n = 2, f_num_i = 3, f_field = [[Fin (7 / 2), Fin (9 / 2), Fin (15 / 2)], [0, 0, 0]]\<rparr>\<rparr>)
       = (None, pass_example\<lparr>s_hfield :=
            \<lparr>f_n = 0, f_num_n = 2, f_num_i = 3, f_field = [[Fin (7 / 2), Fin (9 / 2), Fin (15 / 2)], [0, 0, 0]]\<rparr>,
           s_efield :=
            \<lparr>f_n = 0, f_num_n = 2, f_num_i = 3,
             f_field = [[Fin (- 31 / 4), Fin (- 13 / 2), Fin (- 15 / 2)], [0, 0, 0]]\<rparr>\<rparr>)"
proof -
  have r: "ready pass_example"
    by (simp add: ready_def on_row_def wf_Field_def pass_example_def)
  have H: "spec_hfield_row (s_h_calc_term2_prop_coeff pass_example)
             (cur_row (s_efield pass_example)) (cur_row (s_hfield pass_example))
           = [Fin (7 / 2), Fin (9 / 2), Fin (15 / 2)]"
    by (simp add: spec_hfield_row_def cur_row_def pass_example_def zero_outside_def
          eval_nat_numeral f64_eval)
  have E: "spec_efield_row (s_e_calc_term1_prop_coeff pass_example)
             (s_e_calc_term2_prop_coeff pass_example) (s_e_calc_term3_prop_coeff pass_example)
             (s_e_calc_term4_prop_coeff pass_example) (psi pass_example)
             (cur_row (s_efield pass_example)) [Fin (7 / 2), Fin (9 / 2), Fin (15 / 2)]
             (cur_row (s_cfield pass_example))
           = [Fin (- 31 / 4), Fin (- 13 / 2), Fin (- 15 / 2)]"
    by (simp add: spec_efield_row_def cur_row_def pass_example_def zero_outside_def psi_def
          eval_nat_numeral f64_eval)
  have h: "set_cur_row (s_hfield pass_example) [Fin (7 / 2), Fin (9 / 2), Fin (15 / 2)]
      = \<lparr>f_n = 0, f_num_n = 2, f_num_i = 3, f_field = [[Fin (7 / 2), Fin (9 / 2), Fin (15 / 2)], [0, 0, 0]]\<rparr>"
    by (simp add: set_cur_row_def pass_example_def)
  have e: "set_cur_row (s_efield pass_example) [Fin (- 31 / 4), Fin (- 13 / 2), Fin (- 15 / 2)]
      = \<lparr>f_n = 0, f_num_n = 2, f_num_i = 3,
         f_field = [[Fin (- 31 / 4), Fin (- 13 / 2), Fin (- 15 / 2)], [0, 0, 0]]\<rparr>"
    by (simp add: set_cur_row_def pass_example_def)
  show ?thesis
    using leapfrog_pass [OF r H [symmetric] E [symmetric] refl refl] r
    unfolding h e by simp
qed

subsection \<open>Advancing the three fields\<close>

text \<open>
  Claim C1 says that a pass advances the current field like the other two, copying its
  active row forward. \<open>_iterate_cfield\<close> only increments the cursor: after one pass over
  a current field whose row 0 holds 1 and whose row 1 holds 0, row 1 still holds 0, where
  \<open>iterate()\<close> on the same field would have written 1 into it.
\<close>

theorem cfield_row_not_copied:
  "Sim_init (Fin 1) (Fin 1) (Fin 1) (Fin 1) (Fin 2) 2 1 impulse_2x1 0 0 = Inr impulse_sim
   \<and> fst (sim_step impulse_sim) = None
   \<and> s_cfield (snd (sim_step impulse_sim))
       = \<lparr>f_n = 1, f_num_n = 2, f_num_i = 1, f_field = [[Fin 1], [0]]\<rparr>
   \<and> Field_iterate (s_cfield impulse_sim)
       = (None, \<lparr>f_n = 1, f_num_n = 2, f_num_i = 1, f_field = [[Fin 1], [Fin 1]]\<rparr>)
   \<and> s_cfield (snd (sim_step impulse_sim)) \<noteq> snd (Field_iterate (s_cfield impulse_sim))"
  by (simp add: impulse_sim_init)
     (simp add: sim_defs field_defs impulse_sim_def impulse_2x1_def py_range_1 Let_def
        eval_nat_numeral)

text \<open>
  Claim C1, amended. In every pass of the loop of \<open>simulate\<close> that returns normally, the
  magnetic and the electric field are advanced with \<open>iterate()\<close> (row copied forward,
  cursor plus one), and the current field has its cursor incremented by one with its
  buffer left as it was; so the three cursors, equal before the pass, are equal after it.
\<close>

theorem step_advances_cursors:
  "sim_step s = (None, s') \<Longrightarrow>
     s_cfield s' = (s_cfield s)\<lparr>f_n := f_n (s_cfield s) + 1\<rparr>
     \<and> Field_iterate (s_hfield (snd (calc_efield (snd (calc_hfield s))))) = (None, s_hfield s')
     \<and> Field_iterate (s_efield (snd (calc_efield (snd (calc_hfield s))))) = (None, s_efield s')
     \<and> f_n (s_hfield s') = f_n (s_hfield s) + 1
     \<and> f_n (s_efield s') = f_n (s_efield s) + 1
     \<and> (f_n (s_hfield s) = f_n (s_cfield s) \<and> f_n (s_efield s) = f_n (s_cfield s) \<longrightarrow>
          f_n (s_hfield s') = f_n (s_cfield s') \<and> f_n (s_efield s') = f_n (s_cfield s'))"
proof -
  assume "sim_step s = (None, s')"
  from sim_step_stages [OF this] obtain s1 s2 s3 s4 where
    st: "calc_hfield s = (None, s1)" "calc_efield s1 = (None, s2)"
      "on_hfield Field_iterate s2 = (None, s3)" "on_efield Field_iterate s3 = (None, s4)"
      "iterate_cfield s4 = (None, s')"
    by blast
  have s1: "s_cfield s1 = s_cfield s" "s_efield s1 = s_efield s"
      "f_n (s_hfield s1) = f_n (s_hfield s)"
    using calc_hfield_frame [of s] st(1) by simp_all
  have s2: "s_cfield s2 = s_cfield s1" "s_hfield s2 = s_hfield s1"
      "f_n (s_efield s2) = f_n (s_efield s1)"
    using calc_efield_frame [of s1] st(2) by simp_all
  have s2': "s2 = snd (calc_efield (snd (calc_hfield s)))"
    using st(1,2) by simp
  from on_hfield_result [OF st(3)] have
    s3: "Field_iterate (s_hfield s2) = (None, s_hfield s3)" "s3 = s2\<lparr>s_hfield := s_hfield s3\<rparr>"
    by simp_all
  from on_efield_result [OF st(4)] have
    s4: "Field_iterate (s_efield s3) = (None, s_efield s4)" "s4 = s3\<lparr>s_efield := s_efield s4\<rparr>"
    by simp_all
  note s5 = iterate_cfield_result [OF st(5)]
  have e3: "s_efield s3 = s_efield s2" "s_cfield s3 = s_cfield s2"
    by (subst s3(2), simp)+
  have h4: "s_hfield s4 = s_hfield s3" "s_cfield s4 = s_cfield s3"
    by (subst s4(2), simp)+
  have f5: "s_hfield s' = s_hfield s4" "s_efield s' = s_efield s4"
      "s_cfield s' = (s_cfield s4)\<lparr>f_n := f_n (s_cfield s4) + 1\<rparr>"
    by (subst s5, simp)+
  have c: "s_cfield s' = (s_cfield s)\<lparr>f_n := f_n (s_cfield s) + 1\<rparr>"
    by (simp add: f5 h4 e3 s2 s1)
  have h: "Field_iterate (s_hfield s2) = (None, s_hfield s')"
    by (simp add: f5 h4 s3(1))
  have e: "Field_iterate (s_efield s2) = (None, s_efield s')"
    using s4(1) by (simp add: f5 e3)
  have hn: "f_n (s_hfield s') = f_n (s_hfield s) + 1"
    using iterate_result_cursor [OF h] by (simp add: s2 s1)
  have en: "f_n (s_efield s') = f_n (s_efield s) + 1"
    using iterate_result_cursor [OF e] by (simp add: s2 s1)
  show ?thesis
    using c h e hn en unfolding s2' by simp
qed

theorem step_advances_cursors_witness:
  "sim_step impulse_sim = (None, snd (sim_step impulse_sim))
   \<and> s_cfield (snd (sim_step impulse_sim)) = impulse_2x1\<lparr>f_n := 1\<rparr>
   \<and> f_n (s_hfield impulse_sim) = f_n (s_cfield impulse_sim)
   \<and> f_n (s_efield impulse_sim) = f_n (s_cfield impulse_sim)
   \<and> f_n (s_hfield (snd (sim_step impulse_sim))) = 1
   \<and> f_n (s_efield (snd (sim_step impulse_sim))) = 1
   \<and> f_n (s_cfield (snd (sim_step impulse_sim))) = 1"
proof -
  have "fst (sim_step impulse_sim) = None"
    by (simp add: sim_defs field_defs impulse_sim_def impulse_2x1_def py_range_1 Let_def
          eval_nat_numeral)
  then have a: "sim_step impulse_sim = (None, snd (sim_step impulse_sim))"
    by (metis prod.collapse)
  have b: "s_cfield impulse_sim = impulse_2x1" "f_n impulse_2x1 = 0"
    "f_n (s_hfield impulse_sim) = 0" "f_n (s_efield impulse_sim) = 0"
    by (simp_all add: impulse_sim_def impulse_2x1_def)
  show ?thesis
    using step_advances_cursors [OF a] a b by simp
qed

subsection \<open>The coefficients\<close>



subsection \<open>Running simulate twice\<close>

text \<open>
  Claim C9. \<open>simulate\<close> resets the three cursors and leaves every buffer as it is, so a
  second run starts from the values of the first: for the simulation over the one-column
  impulse, the electric buffer after one run is \<open>[[-1], [-1]]\<close> and after a second run
  on the same object \<open>[[-7/4], [-7/4]]\<close>.
\<close>

theorem second_run_differs_from_fresh_run:
  "Sim_init (Fin 1) (Fin 1) (Fin 1) (Fin 1) (Fin 2) 2 1 impulse_2x1 0 0 = Inr impulse_sim
   \<and> fst (simulate impulse_sim) = None
   \<and> fst (simulate (snd (simulate impulse_sim))) = None
   \<and> Field_export (s_efield (snd (simulate impulse_sim))) = [[Fin (- 1)], [Fin (- 1)]]
   \<and> Field_export (s_efield (snd (simulate (snd (simulate impulse_sim)))))
       = [[Fin (- 7 / 4)], [Fin (- 7 / 4)]]
   \<and> Field_export (s_efield (snd (simulate (snd (simulate impulse_sim)))))
       \<noteq> Field_export (s_efield (snd (simulate impulse_sim)))
   \<and> (\<forall>s. f_field (s_efield (snd (reset_time s))) = f_field (s_efield s)
          \<and> f_field (s_hfield (snd (reset_time s))) = f_field (s_hfield s)
          \<and> f_field (s_cfield (snd (reset_time s))) = f_field (s_cfield s))"
proof -
  have a: "simulate impulse_sim = (None, impulse_sim
      \<lparr>s_hfield := \<lparr>f_n = 1, f_num_n = 2, f_num_i = 1, f_field = [[0], [0]]\<rparr>,
       s_efield := \<lparr>f_n = 1, f_num_n = 2, f_num_i = 1, f_field = [[Fin (- 1)], [Fin (- 1)]]\<rparr>,
       s_cfield := \<lparr>f_n = 1, f_num_n = 2, f_num_i = 1, f_field = [[Fin 1], [0]]\<rparr>\<rparr>)"
    by (simp add: sim_defs field_defs impulse_sim_def impulse_2x1_def py_range_1 Let_def
          eval_nat_numeral)
  have b: "simulate (impulse_sim
      \<lparr>s_hfield := \<lparr>f_n = 1, f_num_n = 2, f_num_i = 1, f_field = [[0], [0]]\<rparr>,
       s_efield := \<lparr>f_n = 1, f_num_n = 2, f_num_i = 1, f_field = [[Fin (- 1)], [Fin (- 1)]]\<rparr>,
       s_cfield := \<lparr>f_n = 1, f_num_n = 2, f_num_i = 1, f_field = [[Fin 1], [0]]\<rparr>\<rparr>)
     = (None, impulse_sim
      \<lparr>s_hfield := \<lparr>f_n = 1, f_num_n = 2, f_num_i = 1, f_field = [[Fin (- 1 / 2)], [Fin (- 1 / 2)]]\<rparr>,
       s_efield := \<lparr>f_n = 1, f_num_n = 2, f_num_i = 1, f_field = [[Fin (- 7 / 4)], [Fin (- 7 / 4)]]\<rparr>,
       s_cfield := \<lparr>f_n = 1, f_num_n = 2, f_num_i = 1, f_field = [[Fin 1], [0]]\<rparr>\<rparr>)"
    by (simp add: sim_defs field_defs impulse_sim_def impulse_2x1_def py_range_1 Let_def
          eval_nat_numeral)
  show ?thesis
    by (simp add: impulse_sim_init a b Field_export_def reset_time_buffers)
qed

subsection \<open>An impulse spreads one column per pass\<close>

lemma econe_mono: "econe p r row \<Longrightarrow> r \<le> r' \<Longrightarrow> econe p r' row"
  by (auto simp: econe_def)

lemma hcone_mono: "hcone p r row \<Longrightarrow> r \<le> r' \<Longrightarrow> hcone p r' row"
  by (auto simp: hcone_def)

lemma hcone_spec_hfield_row:
  assumes "econe p (r - 1) E" "hcone p r H" "length E = length H" and fin: "is_finite ch"
  shows "hcone p r (spec_hfield_row ch E H)"
  unfolding hcone_def
proof (intro allI impI)
  fix i
  assume i: "i < length (spec_hfield_row ch E H)"
    and out: "int i < p - r \<or> p + r - 1 < int i"
  from i have il: "i < length H" by (simp add: spec_row_lengths)
  have h: "H ! i = 0" using assms(2) il out by (auto simp: hcone_def)
  have e: "E ! i = 0" using assms(1,3) il out by (auto simp: econe_def)
  have e1: "zero_outside E (int i + 1) = 0"
  proof (cases "Suc i < length E")
    case True
    have "r - 1 < \<bar>int (Suc i) - p\<bar>" using out by auto
    then have "E ! Suc i = 0" using assms(1) True by (auto simp: econe_def)
    moreover have "nat (int i + 1) = Suc i" by simp
    ultimately show ?thesis using True by (simp add: zero_outside_def)
  next
    case False
    then show ?thesis by (auto simp: zero_outside_def)
  qed
  show "spec_hfield_row ch E H ! i = 0"
    using il
    by (simp add: spec_hfield_row_def h e e1 zero_minus_zero finite_times_0 [OF fin])
qed

lemma econe_spec_efield_row:
  assumes "econe p (r - 1) E" "hcone p r H" "length H = length E"
    and J: "\<And>i. i < length E \<Longrightarrow> r < \<bar>int i - p\<bar> \<Longrightarrow> zero_outside J (int i) = 0"
    and fin: "is_finite c1" "is_finite c2" "is_finite c3" "is_finite c4"
  shows "econe p r (spec_efield_row c1 c2 c3 c4 0 E H J)"
  unfolding econe_def
proof (intro allI impI)
  fix i
  assume i: "i < length (spec_efield_row c1 c2 c3 c4 0 E H J)"
    and out: "r < \<bar>int i - p\<bar>"
  from i have il: "i < length E" by (simp add: spec_row_lengths)
  have e: "E ! i = 0" using assms(1) il out by (auto simp: econe_def)
  have h: "H ! i = 0" using assms(2,3) il out by (auto simp: hcone_def)
  have h1: "zero_outside H (int i - 1) = 0"
  proof (cases "0 < i")
    case True
    then have n: "nat (int i - 1) = i - 1" by simp
    have "int (i - 1) < p - r \<or> p + r - 1 < int (i - 1)" using out True by auto
    moreover have "i - 1 < length H" using il assms(3) by simp
    ultimately have "H ! (i - 1) = 0" using assms(2) by (auto simp: hcone_def)
    then show ?thesis using n by (simp add: zero_outside_def)
  next
    case False
    then show ?thesis by (simp add: zero_outside_def)
  qed
  show "spec_efield_row c1 c2 c3 c4 0 E H J ! i = 0"
    using il
    by (simp add: spec_efield_row_def e h h1 J [OF il out] zero_minus_zero zero_plus_zero
          fin [THEN finite_times_0])
qed

lemma src_only_row:
  assumes "src_only p C" "k < length C" "int k < \<bar>int i - p\<bar>"
  shows "zero_outside (C ! k) (int i) = 0"
proof (cases "i < length (C ! k)")
  case True
  have "C ! k ! i = 0"
  proof (rule ccontr)
    assume "C ! k ! i \<noteq> 0"
    with assms(1,2) True have "k = 0 \<and> int i = p" by (simp add: src_only_def)
    with assms(3) show False by simp
  qed
  then show ?thesis by (simp add: zero_outside_def)
next
  case False
  then show ?thesis by (simp add: zero_outside_def)
qed

lemma advanced_set_cur_row:
  "advanced (set_cur_row f r) =
     f\<lparr>f_field := (f_field f)[nat (f_n f) := r,
                               nat (f_n f + 1) := (f_field f)[nat (f_n f) := r] ! nat (f_n f)],
       f_n := f_n f + 1\<rparr>"
  by (simp add: advanced_def set_cur_row_def)


lemma advanced_facts:
  "f_n (advanced f) = f_n f + 1" "f_num_n (advanced f) = f_num_n f"
  "f_num_i (advanced f) = f_num_i f"
  by (simp_all add: advanced_def)

lemma advanced_set_cur_row_rows:
  assumes "f_n f = int k" "Suc k < length (f_field f)"
  shows "f_field (advanced (set_cur_row f r)) ! Suc k = r"
    "f_field (advanced (set_cur_row f r)) ! k = r"
    "j < k \<Longrightarrow> f_field (advanced (set_cur_row f r)) ! j = f_field f ! j"
proof -
  have n: "nat (f_n f) = k" "nat (f_n f + 1) = Suc k" using assms(1) by simp_all
  show "f_field (advanced (set_cur_row f r)) ! Suc k = r"
    using assms(2) by (simp add: advanced_set_cur_row n)
  show "f_field (advanced (set_cur_row f r)) ! k = r"
    using assms(2) by (simp add: advanced_set_cur_row n)
  show "f_field (advanced (set_cur_row f r)) ! j = f_field f ! j" if "j < k"
    using assms(2) that by (simp add: advanced_set_cur_row n)
qed

lemma on_row_next_cursor:
  assumes "on_row f" "f_n f + 1 < f_num_n f"
  shows "on_row (f\<lparr>f_n := f_n f + 1\<rparr>)"
  using assms by (simp add: on_row_def wf_Field_def)

lemma cone_inv_step:
  assumes inv: "cone_inv p k s" and more: "int k + 1 < s_num_n s"
  shows "\<exists>s'. sim_step s = (None, s') \<and> cone_inv p (Suc k) s'
              \<and> s_num_n s' = s_num_n s \<and> s_num_i s' = s_num_i s"
proof -
  define Ef where "Ef = s_efield s"
  define Hf where "Hf = s_hfield s"
  define Cf where "Cf = s_cfield s"
  define Hr where "Hr = spec_hfield_row (s_h_calc_term2_prop_coeff s) (cur_row Ef) (cur_row Hf)"
  define Er where "Er = spec_efield_row (s_e_calc_term1_prop_coeff s)
     (s_e_calc_term2_prop_coeff s) (s_e_calc_term3_prop_coeff s) (s_e_calc_term4_prop_coeff s)
     (psi s) (cur_row Ef) Hr (cur_row Cf)"
  define s' where "s' = s\<lparr>s_hfield := advanced (set_cur_row Hf Hr),
             s_efield := advanced (set_cur_row Ef Er),
             s_cfield := Cf\<lparr>f_n := f_n Cf + 1\<rparr>\<rparr>"
  from inv have r: "ready s" and fin: "finite_coeffs s"
    and nn: "f_num_n Ef = s_num_n s" "f_num_n Hf = s_num_n s" "f_num_n Cf = s_num_n s"
    and cur: "f_n Ef = int k" "f_n Hf = int k" "f_n Cf = int k"
    and src: "src_only p (f_field Cf)"
    and past: "\<And>j. j < k \<Longrightarrow> econe p (int j) (f_field Ef ! j)"
    and ek: "econe p (int k - 1) (f_field Ef ! k)"
    and hk: "hcone p (int k) (f_field Hf ! k)"
    by (simp_all add: cone_inv_def Ef_def Hf_def Cf_def)
  from r have oe: "on_row Ef" and oh: "on_row Hf" and oc: "on_row Cf"
    and ni: "f_num_i Ef = s_num_i s" "f_num_i Hf = s_num_i s"
    by (simp_all add: ready_def Ef_def Hf_def Cf_def)
  have rowE: "cur_row Ef = f_field Ef ! k" and rowH: "cur_row Hf = f_field Hf ! k"
    and rowC: "cur_row Cf = f_field Cf ! k"
    by (simp_all add: cur_row_def cur)
  have lenE: "length (cur_row Ef) = nat (s_num_i s)"
    and lenH: "length (cur_row Hf) = nat (s_num_i s)"
    using on_row_facts(4) [OF oe] on_row_facts(4) [OF oh] ni by simp_all
  have bufE: "Suc k < length (f_field Ef)" and bufH: "Suc k < length (f_field Hf)"
    and bufC: "k < length (f_field Cf)"
    using oe oh oc nn more cur by (auto simp: on_row_def wf_Field_def)
  have step: "sim_step s = (None, s')"
    unfolding s'_def Er_def Hr_def Ef_def Hf_def Cf_def
    using more nn cur
    by (intro sim_step_ready [OF r refl refl]) (simp_all add: Ef_def Hf_def Cf_def)
  have hc: "hcone p (int k) Hr"
    unfolding Hr_def
    using ek hk lenE lenH fin
    by (intro hcone_spec_hfield_row) (simp_all add: rowE rowH finite_coeffs_def)
  have lenHr: "length Hr = nat (s_num_i s)"
    by (simp add: Hr_def spec_row_lengths lenH)
  have ec: "econe p (int k) Er"
    unfolding Er_def psi_def
  proof (intro econe_spec_efield_row)
    show "econe p (int k - 1) (cur_row Ef)" using ek by (simp add: rowE)
    show "hcone p (int k) Hr" by (rule hc)
    show "length Hr = length (cur_row Ef)" by (simp add: lenHr lenE)
    show "zero_outside (cur_row Cf) (int i) = 0" if "int k < \<bar>int i - p\<bar>" for i
      unfolding rowC by (rule src_only_row [OF src bufC that])
  qed (use fin in \<open>simp_all add: finite_coeffs_def\<close>)
  have lenEr: "length Er = nat (s_num_i s)"
    by (simp add: Er_def spec_row_lengths lenE)
  have oh': "on_row (advanced (set_cur_row Hf Hr))"
    using on_row_set_cur_row [OF oh, of Hr] lenHr ni nn more cur
    by (intro on_row_advance(2)) (simp_all add: set_cur_row_facts)
  have oe': "on_row (advanced (set_cur_row Ef Er))"
    using on_row_set_cur_row [OF oe, of Er] lenEr ni nn more cur
    by (intro on_row_advance(2)) (simp_all add: set_cur_row_facts)
  have oc': "on_row (Cf\<lparr>f_n := f_n Cf + 1\<rparr>)"
    using nn more cur by (intro on_row_next_cursor [OF oc]) simp
  have ready': "ready s'"
    using oh' oe' oc' ni
    by (simp add: ready_def s'_def advanced_facts set_cur_row_facts)
  have past': "econe p (int j) (f_field (s_efield s') ! j)" if "j < Suc k" for j
  proof (cases "j < k")
    case True
    then show ?thesis
      using past [OF True] advanced_set_cur_row_rows(3) [OF cur(1) bufE True, of Er]
      by (simp add: s'_def)
  next
    case False
    with that have "j = k" by simp
    then show ?thesis
      using ec advanced_set_cur_row_rows(2) [OF cur(1) bufE, of Er]
      by (simp add: s'_def)
  qed
  have ek': "econe p (int (Suc k) - 1) (f_field (s_efield s') ! Suc k)"
    using ec advanced_set_cur_row_rows(1) [OF cur(1) bufE, of Er]
    by (simp add: s'_def)
  have hk': "hcone p (int (Suc k)) (f_field (s_hfield s') ! Suc k)"
    using hcone_mono [OF hc, of "int (Suc k)"]
      advanced_set_cur_row_rows(1) [OF cur(2) bufH, of Hr]
    by (simp add: s'_def)
  have "cone_inv p (Suc k) s'"
    unfolding cone_inv_def
    using ready' past' ek' hk' src nn cur fin
    by (simp add: s'_def advanced_facts set_cur_row_facts Ef_def Hf_def Cf_def
          finite_coeffs_def)
  moreover have "s_num_n s' = s_num_n s" "s_num_i s' = s_num_i s" by (simp_all add: s'_def)
  ultimately show ?thesis using step by blast
qed


lemma Sim_init_fields:
  assumes "Sim_init e0 ei m0 dt dz N M cf su chi = Inr s"
  shows "Field_init N M None = Inr (s_efield s)" "Field_init N M None = Inr (s_hfield s)"
    "s_cfield s = cf" "s_num_n s = N" "s_num_i s = M"
  using assms by (auto simp: Sim_init_def split: sum.splits)

lemma on_row_cursor_0:
  assumes "wf_Field f" "0 < f_num_n f"
  shows "on_row (f\<lparr>f_n := 0\<rparr>)"
  using assms by (simp add: on_row_def wf_Field_def)

lemma simulate_cone:
  assumes init: "Sim_init e0 ei m0 dt dz N M cf su chi = Inr s"
    and wf: "wf_Field cf" "f_num_n cf = N" and src: "src_only p (f_field cf)"
    and N1: "1 \<le> N" and fin: "finite_coeffs s"
  shows "\<exists>s'. simulate s = (None, s') \<and> wf_Field (s_efield s')
            \<and> f_num_n (s_efield s') = N \<and> f_num_i (s_efield s') = M
            \<and> (\<forall>n<nat N. econe p (int n) (f_field (s_efield s') ! n))"
proof -
  note f = Sim_init_fields [OF init]
  note we = wf_Field_init [OF f(1)] and wh = wf_Field_init [OF f(2)]
  define s0 where "s0 = s\<lparr>s_efield := (s_efield s)\<lparr>f_n := 0\<rparr>,
      s_hfield := (s_hfield s)\<lparr>f_n := 0\<rparr>, s_cfield := cf\<lparr>f_n := 0\<rparr>\<rparr>"
  have reset: "reset_time s = (None, s0)"
    using N1 we wh wf(2) f(3)
    by (simp add: reset_time_def and_then_def on_efield_def on_hfield_def on_cfield_def
          Field_set_time_index_def s0_def)
  have M0: "0 \<le> M" using we by (simp add: wf_Field_def)
  have rowE: "f_field (s_efield s) ! 0 = replicate (nat M) 0"
    and rowH: "f_field (s_hfield s) ! 0 = replicate (nat M) 0"
    using we wh N1 by simp_all
  have ready0: "ready s0"
    using we wh wf N1 f(5)
    by (simp add: ready_def s0_def on_row_cursor_0)
  have inv0: "cone_inv p 0 s0"
    unfolding cone_inv_def
    using ready0 we wh wf(2) src f(4) rowE rowH fin
    by (simp add: s0_def econe_def hcone_def finite_coeffs_def)
  define I where "I = (\<lambda>m t. cone_inv p m t \<and> s_num_n t = N \<and> s_num_i t = M)"
  have I0: "I 0 s0" using inv0 f(4,5) by (simp add: I_def s0_def)
  have stepI: "\<exists>t'. sim_step t = (None, t') \<and> I (Suc m) t'"
    if "m < nat (N - 1)" "I m t" for m t
  proof -
    from that have "cone_inv p m t" "int m + 1 < s_num_n t" by (auto simp: I_def)
    from cone_inv_step [OF this] that(2) show ?thesis by (auto simp: I_def)
  qed
  from for_loop_invariant [of "nat (N - 1)" I "\<lambda>j. sim_step" s0, OF stepI I0]
  obtain s' where s': "for_loop (py_range (int (nat (N - 1)))) (\<lambda>j. sim_step) s0 = (None, s')"
    "I (nat (N - 1)) s'" by blast
  have sim: "simulate s = (None, s')"
    using s'(1) N1 by (simp add: simulate_def and_then_def reset f(4))
  from s'(2) have inv: "cone_inv p (nat (N - 1)) s'" and dims: "s_num_n s' = N" "s_num_i s' = M"
    by (simp_all add: I_def)
  from inv have r: "ready s'"
    and past: "\<And>j. j < nat (N - 1) \<Longrightarrow> econe p (int j) (f_field (s_efield s') ! j)"
    and last: "econe p (int (nat (N - 1)) - 1) (f_field (s_efield s') ! nat (N - 1))"
    and nE: "f_num_n (s_efield s') = s_num_n s'"
    by (simp_all add: cone_inv_def)
  have rows: "econe p (int n) (f_field (s_efield s') ! n)" if "n < nat N" for n
  proof (cases "n < nat (N - 1)")
    case True
    then show ?thesis by (rule past)
  next
    case False
    with that have "n = nat (N - 1)" by linarith
    then show ?thesis using econe_mono [OF last, of "int n"] by simp
  qed
  from r have "wf_Field (s_efield s')" "f_num_i (s_efield s') = s_num_i s'"
    by (simp_all add: ready_def on_row_def)
  then show ?thesis using sim rows nE dims by simp
qed

lemma impulse_6x11_built:
  "\<exists>z. Field_init 6 11 None = Inr z \<and> Field_set_index z 5 v = (None, impulse_6x11 v)"
  by (simp add: Field_init_def np_zeros_def Field_set_index_def np_setitem_def np_index_def
        impulse_6x11_def)

lemma impulse_6x11_wf: "wf_Field (impulse_6x11 v)" "f_num_n (impulse_6x11 v) = 6"
  by (auto simp: wf_Field_def impulse_6x11_def list_all_length nth_list_update)

lemma impulse_6x11_src: "src_only 5 (f_field (impulse_6x11 v))"
  by (auto simp: src_only_def impulse_6x11_def nth_list_update split: if_splits)

subsection \<open>An infinite coefficient\<close>

lemma extreme_floats:
  "fl_round float_1e_308 = Fin float_1e_308" "fl_round float_1e308 = Fin float_1e308"
  "fl_round (float_1e308 / float_1e_308) = PInf" "float_1e_308 \<noteq> 0"
  by (simp_all add: fl_round_def float_1e308_def float_1e_308_def)

lemma overflow_sim_init:
  "Sim_init (Fin float_1e_308) (Fin 1) (Fin 1) (Fin float_1e308) (Fin 1) 6 11
      (impulse_6x11 (Fin 1)) 0 0 = Inr overflow_sim"
  by (simp add: Sim_init_def f64_eval extreme_floats Field_init_def np_zeros_def
        overflow_sim_def)

text \<open>
  With an infinite third coefficient and a finite magnetic coefficient, the first pass
  over the all-zero fields writes NaN at column 0 of row 0 of the electric field, and no
  later pass writes row 0 again.
\<close>

lemma nan_at_origin:
  assumes init: "Sim_init e0 ei m0 dt dz N M cf su chi = Inr s"
    and wf: "wf_Field cf" "f_num_n cf = N"
    and N2: "2 \<le> N" and M1: "1 \<le> M"
    and c3: "s_e_calc_term3_prop_coeff s = PInf" and ch: "is_finite (s_h_calc_term2_prop_coeff s)"
  shows "\<exists>s'. simulate s = (None, s') \<and> f_field (s_efield s') ! 0 ! 0 = NaN"
proof -
  note f = Sim_init_fields [OF init]
  note we = wf_Field_init [OF f(1)] and wh = wf_Field_init [OF f(2)]
  define s0 where "s0 = s\<lparr>s_efield := (s_efield s)\<lparr>f_n := 0\<rparr>,
      s_hfield := (s_hfield s)\<lparr>f_n := 0\<rparr>, s_cfield := cf\<lparr>f_n := 0\<rparr>\<rparr>"
  have reset: "reset_time s = (None, s0)"
    using N2 we wh wf(2) f(3)
    by (simp add: reset_time_def and_then_def on_efield_def on_hfield_def on_cfield_def
          Field_set_time_index_def s0_def)
  have rowE: "f_field (s_efield s) ! 0 = replicate (nat M) 0"
    and rowH: "f_field (s_hfield s) ! 0 = replicate (nat M) 0"
    using we wh N2 by simp_all
  have ready0: "ready s0"
    using we wh wf N2 f(5)
    by (simp add: ready_def s0_def on_row_cursor_0)
  define I where "I = (\<lambda>k t. ready t \<and> s_num_n t = N \<and> s_num_i t = M
      \<and> f_num_n (s_efield t) = N \<and> f_num_n (s_hfield t) = N \<and> f_num_n (s_cfield t) = N
      \<and> f_n (s_efield t) = int k \<and> f_n (s_hfield t) = int k \<and> f_n (s_cfield t) = int k
      \<and> s_e_calc_term3_prop_coeff t = PInf \<and> is_finite (s_h_calc_term2_prop_coeff t)
      \<and> (k = 0 \<longrightarrow> cur_row (s_efield t) = replicate (nat M) 0
                    \<and> cur_row (s_hfield t) = replicate (nat M) 0)
      \<and> (0 < k \<longrightarrow> f_field (s_efield t) ! 0 ! 0 = NaN))"
  have I0: "I 0 s0"
    using ready0 we wh wf(2) f(4,5) rowE rowH c3 ch
    by (simp add: I_def s0_def cur_row_def)
  have stepI: "\<exists>t'. sim_step t = (None, t') \<and> I (Suc k) t'"
    if k: "k < nat (N - 1)" and t: "I k t" for k t
  proof -
    define Ef where "Ef = s_efield t"
    define Hf where "Hf = s_hfield t"
    define Cf where "Cf = s_cfield t"
    define Hr where "Hr = spec_hfield_row (s_h_calc_term2_prop_coeff t) (cur_row Ef) (cur_row Hf)"
    define Er where "Er = spec_efield_row (s_e_calc_term1_prop_coeff t)
       (s_e_calc_term2_prop_coeff t) (s_e_calc_term3_prop_coeff t) (s_e_calc_term4_prop_coeff t)
       (psi t) (cur_row Ef) Hr (cur_row Cf)"
    define t' where "t' = t\<lparr>s_hfield := advanced (set_cur_row Hf Hr),
               s_efield := advanced (set_cur_row Ef Er),
               s_cfield := Cf\<lparr>f_n := f_n Cf + 1\<rparr>\<rparr>"
    from t have r: "ready t" and dims: "s_num_n t = N" "s_num_i t = M"
      and nn: "f_num_n Ef = N" "f_num_n Hf = N" "f_num_n Cf = N"
      and cur: "f_n Ef = int k" "f_n Hf = int k" "f_n Cf = int k"
      and c3t: "s_e_calc_term3_prop_coeff t = PInf"
      and cht: "is_finite (s_h_calc_term2_prop_coeff t)"
      and first: "k = 0 \<Longrightarrow> cur_row Ef = replicate (nat M) 0"
        "k = 0 \<Longrightarrow> cur_row Hf = replicate (nat M) 0"
      and later: "0 < k \<Longrightarrow> f_field Ef ! 0 ! 0 = NaN"
      by (simp_all add: I_def Ef_def Hf_def Cf_def)
    from r have oe: "on_row Ef" and oh: "on_row Hf" and oc: "on_row Cf"
      and ni: "f_num_i Ef = s_num_i t" "f_num_i Hf = s_num_i t"
      by (simp_all add: ready_def Ef_def Hf_def Cf_def)
    have more: "int k + 1 < N" using k by linarith
    have lenE: "length (cur_row Ef) = nat M" and lenH: "length (cur_row Hf) = nat M"
      using on_row_facts(4) [OF oe] on_row_facts(4) [OF oh] ni dims by simp_all
    have bufE: "Suc k < length (f_field Ef)"
      using oe nn more cur by (auto simp: on_row_def wf_Field_def)
    have step: "sim_step t = (None, t')"
      unfolding t'_def Er_def Hr_def Ef_def Hf_def Cf_def
      using more nn cur
      by (intro sim_step_ready [OF r refl refl]) (simp_all add: Ef_def Hf_def Cf_def)
    have lenHr: "length Hr = nat M" by (simp add: Hr_def spec_row_lengths lenH)
    have lenEr: "length Er = nat M" by (simp add: Er_def spec_row_lengths lenE)
    have oh': "on_row (advanced (set_cur_row Hf Hr))"
      using on_row_set_cur_row [OF oh, of Hr] lenHr ni nn more cur dims
      by (intro on_row_advance(2)) (simp_all add: set_cur_row_facts)
    have oe': "on_row (advanced (set_cur_row Ef Er))"
      using on_row_set_cur_row [OF oe, of Er] lenEr ni nn more cur dims
      by (intro on_row_advance(2)) (simp_all add: set_cur_row_facts)
    have oc': "on_row (Cf\<lparr>f_n := f_n Cf + 1\<rparr>)"
      using nn more cur by (intro on_row_next_cursor [OF oc]) simp
    have ready': "ready t'"
      using oh' oe' oc' ni
      by (simp add: ready_def t'_def advanced_facts set_cur_row_facts)
    have nan: "f_field (s_efield t') ! 0 ! 0 = NaN"
    proof (cases "k = 0")
      case True
      have M0: "0 < nat M" using M1 by simp
      have e0: "cur_row Ef ! 0 = 0" "zero_outside (cur_row Ef) 1 = 0"
        using first(1) [OF True] M0 by (auto simp: zero_outside_def)
      have h0: "cur_row Hf ! 0 = 0" using first(2) [OF True] M0 by simp
      have hr0: "Hr ! 0 = 0"
        using M0 lenH
        by (simp add: Hr_def spec_hfield_row_def e0 h0 zero_minus_zero
              finite_times_0 [OF cht])
      have "PInf * (0 :: f64) = NaN" by (simp add: zero_f64_def)
      then have t3: "s_e_calc_term3_prop_coeff t * (Hr ! 0 - zero_outside Hr (- 1)) = NaN"
        by (simp add: c3t hr0 zero_outside_def zero_minus_zero)
      have "Er ! 0 = NaN"
        using M0 lenE
        by (simp add: Er_def spec_efield_row_def t3 minus_NaN NaN_minus)
      then show ?thesis
        using advanced_set_cur_row_rows(2) [OF cur(1) bufE, of Er] True
        by (simp add: t'_def Ef_def)
    next
      case False
      then have k0: "0 < k" by simp
      show ?thesis
        using advanced_set_cur_row_rows(3) [OF cur(1) bufE k0, of Er] later [OF k0]
        by (simp add: t'_def Ef_def)
    qed
    have "I (Suc k) t'"
      unfolding I_def
      using ready' nan dims nn cur c3t cht
      by (simp add: t'_def advanced_facts set_cur_row_facts Ef_def Hf_def Cf_def)
    with step show ?thesis by blast
  qed
  from for_loop_invariant [of "nat (N - 1)" I "\<lambda>j. sim_step" s0, OF stepI I0]
  obtain s' where s': "for_loop (py_range (int (nat (N - 1)))) (\<lambda>j. sim_step) s0 = (None, s')"
    "I (nat (N - 1)) s'" by blast
  have sim: "simulate s = (None, s')"
    using s'(1) N2 by (simp add: simulate_def and_then_def reset f(4))
  have "0 < nat (N - 1)" using N2 by simp
  with s'(2) have "f_field (s_efield s') ! 0 ! 0 = NaN" by (simp add: I_def)
  with sim show ?thesis by blast
qed

text \<open>
  Claim C6 says that the electric field is zero outside the cone for every simulation
  constructed over the impulse. With the constants \<open>1e-308, 1.0, 1.0, 1e308, 1.0\<close> the
  constructor succeeds and stores an infinite third coefficient; the first pass then
  computes infinity times zero in every column, and the electric field at time 0,
  column 0, five columns away from the impulse, is NaN after \<open>simulate\<close>.
\<close>

theorem overflow_leaves_nan_outside_cone:
  "Sim_init (Fin float_1e_308) (Fin 1) (Fin 1) (Fin float_1e308) (Fin 1) 6 11
      (impulse_6x11 (Fin 1)) 0 0 = Inr overflow_sim
   \<and> fst (simulate overflow_sim) = None
   \<and> int 0 < \<bar>int 0 - 5\<bar>
   \<and> Field_export (s_efield (snd (simulate overflow_sim))) ! 0 ! 0 = NaN
   \<and> Field_export (s_efield (snd (simulate overflow_sim))) ! 0 ! 0 \<noteq> 0"
proof -
  from nan_at_origin [OF overflow_sim_init impulse_6x11_wf]
  obtain s' where s': "simulate overflow_sim = (None, s')" "f_field (s_efield s') ! 0 ! 0 = NaN"
    by (auto simp: overflow_sim_def is_finite_def)
  show ?thesis
    using s' overflow_sim_init by (simp add: Field_export_def zero_f64_def)
qed

text \<open>
  Claim C6, amended. For a simulation constructed over a current field of 6 rows and 11
  columns that is zero except for one value at column 5, time 0, and whose five stored
  coefficients are finite, \<open>simulate\<close> returns normally and leaves the electric field
  zero at every row \<open>n\<close> and column \<open>i\<close> with \<open>|i - 5| > n\<close>.
\<close>

theorem impulse_stays_in_cone:
  assumes "Sim_init eps0 epsinf mu0 dt dz 6 11 (impulse_6x11 v) susc chi0 = Inr s"
    and "finite_coeffs s"
  shows "\<exists>s'. simulate s = (None, s')
            \<and> (\<forall>n i. n < 6 \<longrightarrow> i < 11 \<longrightarrow> int n < \<bar>int i - 5\<bar> \<longrightarrow>
                  Field_export (s_efield s') ! n ! i = 0)"
proof -
  from simulate_cone [OF assms(1) impulse_6x11_wf impulse_6x11_src _ assms(2)]
  obtain s' where s': "simulate s = (None, s')" "wf_Field (s_efield s')"
    "f_num_n (s_efield s') = 6" "f_num_i (s_efield s') = 11"
    "\<And>n. n < 6 \<Longrightarrow> econe 5 (int n) (f_field (s_efield s') ! n)"
    by auto
  have "Field_export (s_efield s') ! n ! i = 0"
    if "n < 6" "i < 11" "int n < \<bar>int i - 5\<bar>" for n i
  proof -
    have "length (f_field (s_efield s') ! n) = 11"
      using s'(2,3,4) that(1) by (simp add: wf_Field_def list_all_length)
    then show ?thesis
      using s'(5) [OF that(1)] that(2,3) by (simp add: econe_def Field_export_def)
  qed
  with s'(1) show ?thesis by blast
qed

theorem impulse_stays_in_cone_witness:
  "\<exists>s. Sim_init (Fin 1) (Fin 1) (Fin 1) (Fin 1) (Fin 2) 6 11 (impulse_6x11 (Fin 3)) 0 0 = Inr s
     \<and> finite_coeffs s
     \<and> (\<exists>s'. simulate s = (None, s')
            \<and> Field_export (s_efield s') ! 0 ! 4 = 0
            \<and> Field_export (s_efield s') ! 2 ! 8 = 0
            \<and> Field_export (s_efield s') ! 4 ! 10 = 0)"
proof -
  obtain s where s: "Sim_init (Fin 1) (Fin 1) (Fin 1) (Fin 1) (Fin 2) 6 11
      (impulse_6x11 (Fin 3)) 0 0 = Inr s" and fin: "finite_coeffs s"
    by (simp add: Sim_init_def f64_eval Field_init_def np_zeros_def finite_coeffs_def
          is_finite_def)
  from impulse_stays_in_cone [OF s fin] obtain s' where s': "simulate s = (None, s')"
    "\<And>n i. n < 6 \<Longrightarrow> i < 11 \<Longrightarrow> int n < \<bar>int i - 5\<bar> \<Longrightarrow>
        Field_export (s_efield s') ! n ! i = 0"
    by blast
  have "Field_export (s_efield s') ! 0 ! 4 = 0" by (rule s'(2)) simp_all
  moreover have "Field_export (s_efield s') ! 2 ! 8 = 0" by (rule s'(2)) simp_all
  moreover have "Field_export (s_efield s') ! 4 ! 10 = 0" by (rule s'(2)) simp_all
  ultimately show ?thesis using s fin s'(1) by blast
qed

subsection \<open>Writes far outside the grid\<close>

text \<open>
  Beyond the reach of numpy's negative indices, \<open>set_index\<close> does raise and writes
  nothing: for \<open>i \<ge> num_i\<close> and for \<open>i < -num_i\<close>.
\<close>

lemma set_index_far_outside_rejected:
  assumes "on_row f" "i \<ge> f_num_i f \<or> i < - f_num_i f"
  shows "Field_set_index f i v = (Some IndexError, f)"
proof -
  have r: "np_index (length (f_field f)) (f_n f) = Inr (nat (f_n f))"
    using on_row_facts [OF assms(1)] by (simp add: np_index_in_range)
  have c: "np_index (length (f_field f ! nat (f_n f))) i = Inl IndexError"
    using on_row_facts(3,4) [OF assms(1)] assms(2) by (auto simp: np_index_def cur_row_def)
  show ?thesis by (simp add: Field_set_index_def np_setitem_def r c)
qed

subsection \<open>The states in which the passes of simulate run\<close>

text \<open>
  The hypothesis of the closed form of a pass holds in every pass of \<open>simulate\<close> on a
  constructed simulation over a well-formed current field: it holds after the cursor
  reset and every pass that returns normally keeps it.
\<close>

lemma iterate_success_room: "Field_iterate f = (None, f') \<Longrightarrow> f_n f + 1 < f_num_n f"
  by (auto simp: Field_iterate_def split: if_splits)

lemma iterate_cfield_success_room:
  "iterate_cfield s = (None, s') \<Longrightarrow> f_n (s_cfield s) + 1 < f_num_n (s_cfield s)"
  by (auto simp: iterate_cfield_def on_cfield_def Field_set_time_index_def
        Field_get_time_index_def Let_def split: if_splits)

lemma sim_step_keeps_ready:
  assumes r: "ready s" and step: "sim_step s = (None, s')"
  shows "ready s'"
proof -
  from sim_step_stages [OF step] obtain s1 s2 s3 s4 where
    st: "calc_hfield s = (None, s1)" "calc_efield s1 = (None, s2)"
      "on_hfield Field_iterate s2 = (None, s3)" "on_efield Field_iterate s3 = (None, s4)"
      "iterate_cfield s4 = (None, s')"
    by blast
  note p = leapfrog_pass_ready [OF r refl refl refl refl]
  from p(1,2) st(1,2) have r2: "ready s2" using p(4) by simp
  then have oe: "on_row (s_efield s2)" and oh: "on_row (s_hfield s2)"
    and oc: "on_row (s_cfield s2)"
    and ni: "f_num_i (s_efield s2) = s_num_i s2" "f_num_i (s_hfield s2) = s_num_i s2"
    by (simp_all add: ready_def)
  from on_hfield_result [OF st(3)] have
    h3: "Field_iterate (s_hfield s2) = (None, s_hfield s3)" "s3 = s2\<lparr>s_hfield := s_hfield s3\<rparr>"
    by simp_all
  from on_efield_result [OF st(4)] have
    e4: "Field_iterate (s_efield s3) = (None, s_efield s4)" "s4 = s3\<lparr>s_efield := s_efield s4\<rparr>"
    by simp_all
  note c5 = iterate_cfield_result [OF st(5)]
  have e3: "s_efield s3 = s_efield s2" "s_cfield s3 = s_cfield s2" "s_num_i s3 = s_num_i s2"
    by (subst h3(2), simp)+
  have h4: "s_hfield s4 = s_hfield s3" "s_cfield s4 = s_cfield s3" "s_num_i s4 = s_num_i s3"
    by (subst e4(2), simp)+
  have f5: "s_hfield s' = s_hfield s4" "s_efield s' = s_efield s4" "s_num_i s' = s_num_i s4"
      "s_cfield s' = (s_cfield s4)\<lparr>f_n := f_n (s_cfield s4) + 1\<rparr>"
    by (subst c5, simp)+
  have hh: "s_hfield s3 = advanced (s_hfield s2)"
    using on_row_advance(1) [OF oh iterate_success_room [OF h3(1)]] h3(1) by simp
  have ee: "s_efield s4 = advanced (s_efield s2)"
    using on_row_advance(1) [OF oe iterate_success_room [OF e4(1) [unfolded e3]]] e4(1)
    by (simp add: e3)
  have "on_row (s_hfield s')"
    using on_row_advance(2) [OF oh iterate_success_room [OF h3(1)]] by (simp add: f5 h4 hh)
  moreover have "on_row (s_efield s')"
    using on_row_advance(2) [OF oe iterate_success_room [OF e4(1) [unfolded e3]]]
    by (simp add: f5 ee)
  moreover have "on_row (s_cfield s')"
    using on_row_next_cursor [OF oc] iterate_cfield_success_room [OF st(5)]
    by (simp add: f5 h4 e3)
  ultimately show ?thesis
    using ni by (simp add: ready_def f5 h4 e3 hh ee advanced_facts)
qed

lemma reset_time_ready:
  assumes init: "Sim_init e0 ei m0 dt dz N M cf su chi = Inr s" and wf: "wf_Field cf"
    and reset: "reset_time s = (None, s0)"
  shows "ready s0"
proof -
  note f = Sim_init_fields [OF init]
  note we = wf_Field_init [OF f(1)] and wh = wf_Field_init [OF f(2)]
  from reset have ok: "0 < N" "0 < f_num_n cf"
    and s0: "s0 = s\<lparr>s_efield := (s_efield s)\<lparr>f_n := 0\<rparr>,
      s_hfield := (s_hfield s)\<lparr>f_n := 0\<rparr>, s_cfield := cf\<lparr>f_n := 0\<rparr>\<rparr>"
    using we wh f(3)
    by (auto simp: reset_time_def and_then_def on_efield_def on_hfield_def on_cfield_def
          Field_set_time_index_def split: if_splits)
  show ?thesis
    using we wh wf ok f(5) by (simp add: ready_def s0 on_row_cursor_0)
qed

end
